theory Spec2Isabelle
  imports Complex_Main "HOL-Library.Multiset" "HOL-Library.Product_Lexorder"
begin

section \<open>Numbers and text\<close>

text \<open>
  The engine computes with JavaScript numbers. They are modelled as exact rationals
  (\<open>rat\<close>) for money, mileage, rates and percentages, and as integers (\<open>int\<close>) for
  calendar years, vehicle ages and loan terms. \<open>NaN\<close> and the infinities of IEEE
  arithmetic are outside this model; wherever the source can divide by zero the model says
  so explicitly instead of using the value HOL gives to \<open>x / 0\<close>.

  The rounding of binary doubles is followed where the book value is computed: there a
  product is handed to \<open>Math.round\<close>, which turns an error in the last bit into a whole
  dollar (\<open>doubleTimes\<close> below). Everywhere else sums, products and quotients are exact.
  The payment formula goes through \<open>Math.pow\<close>, whose last bits the language leaves to the
  implementation, so payments and what is derived from them are the exact values, not the
  doubles; a comparison, a \<open>Math.ceil\<close> or a printed digit of the source can therefore
  differ from this model where its operands are within rounding error of the boundary.
\<close>

text \<open>\<open>Math.round\<close>: the nearest integer, a tie going up.\<close>

definition jsRound :: "rat \<Rightarrow> rat" where
  "jsRound x = of_int \<lfloor>x + 1 / 2\<rfloor>"

text \<open>\<open>Math.ceil\<close>.\<close>

definition jsCeil :: "rat \<Rightarrow> rat" where
  "jsCeil x = of_int \<lceil>x\<rceil>"

text \<open>
  Binary doubles. A finite double is written as a pair \<open>(m, e)\<close> of integers, which stands
  for the number \<open>m * 2 ^ e\<close>; the magnitude of \<open>m\<close> has at most 53 bits. \<open>nearestDouble n d\<close>
  is the double nearest to the fraction \<open>n / d\<close>, a tie going to the even \<open>m\<close>, which is how
  a numeric literal is read and how the exact result of an arithmetic operation is
  rounded. (Overflow to infinity and the subnormal range are not modelled.)
\<close>

type_synonym double = "int \<times> int"

definition doubleValue :: "double \<Rightarrow> rat" where
  "doubleValue x = of_int (fst x) * power_int 2 (snd x)"

text \<open>The power \<open>2 ^ k\<close>, and 1 for a negative \<open>k\<close>.\<close>

definition pow2 :: "int \<Rightarrow> int" where
  "pow2 k = 2 ^ nat k"

text \<open>The number of binary digits of a positive integer.\<close>

function bitLength :: "int \<Rightarrow> int" where
  "bitLength n = (if n \<le> 0 then 0 else 1 + bitLength (n div 2))"
  by pat_completeness auto
termination
  by (relation "measure nat") auto

declare bitLength.simps [simp del]

text \<open>The integer nearest to \<open>n / d\<close> for a positive \<open>d\<close>, a tie going to the even one.\<close>

definition roundQuotient :: "int \<Rightarrow> int \<Rightarrow> int" where
  "roundQuotient n d =
     (let q = n div d; r = n mod d
      in if 2 * r < d then q
         else if d < 2 * r then q + 1
         else if even q then q else q + 1)"

text \<open>
  With \<open>ex\<close> the exponent for which \<open>2 ^ ex \<le> |n| / d < 2 ^ (ex + 1)\<close>, the fraction is
  scaled by \<open>2 ^ (52 - ex)\<close> into the range of the 53-bit integers and rounded there.
\<close>

definition nearestDouble :: "int \<Rightarrow> int \<Rightarrow> double" where
  "nearestDouble n d =
     (if n = 0 then (0, 0)
      else (let a = \<bar>n\<bar>;
                k = bitLength a - bitLength d;
                ex = (if d * pow2 k \<le> a * pow2 (- k) then k else k - 1);
                e = ex - 52;
                m = roundQuotient (a * pow2 (- e)) (d * pow2 e)
            in (sgn n * m, e)))"

text \<open>The double that a number of the model is read as.\<close>

definition toDouble :: "rat \<Rightarrow> double" where
  "toDouble x = (let (n, d) = quotient_of x in nearestDouble n d)"

text \<open>The operator \<open>*\<close> on two doubles: the exact product, rounded.\<close>

definition doubleTimes :: "double \<Rightarrow> double \<Rightarrow> double" where
  "doubleTimes x y =
     (let (m, e) = nearestDouble (fst x * fst y) 1
      in (m, e + snd x + snd y))"

definition digitChars :: string where
  "digitChars = ''0123456789''"

text \<open>The decimal digits of a non-negative integer.\<close>

function natToString :: "int \<Rightarrow> string" where
  "natToString n =
     (if n < 10 then [digitChars ! nat n]
      else natToString (n div 10) @ [digitChars ! nat (n mod 10)])"
  by pat_completeness auto
termination
  by (relation "measure nat") auto

declare natToString.simps [simp del]

text \<open>An integer inside a template literal.\<close>

definition intToString :: "int \<Rightarrow> string" where
  "intToString i = (if i < 0 then ''-'' @ natToString (- i) else natToString i)"

text \<open>
  \<open>Number.prototype.toFixed(f)\<close> on the exact value: the sign is taken first, the
  magnitude is rounded to \<open>f\<close> decimals with a tie going up, and exactly \<open>f\<close> decimals are
  printed (values of magnitude \<open>10^21\<close> and more, which print in exponent form, are not
  modelled).
\<close>

definition toFixed :: "nat \<Rightarrow> rat \<Rightarrow> string" where
  "toFixed f x =
     (let s = (if x < 0 then ''-'' else '''');
          n = \<lfloor>\<bar>x\<bar> * 10 ^ f + 1 / 2\<rfloor>;
          m = natToString n
      in if f = 0 then s @ m
         else (let m' = replicate (f + 1 - length m) (CHR ''0'') @ m;
                   k = length m'
               in s @ take (k - f) m' @ ''.'' @ drop (k - f) m'))"

text \<open>Digit grouping of \<open>toLocaleString\<close>: a comma before every group of three digits.\<close>

fun groupThousands :: "string \<Rightarrow> string" where
  "groupThousands ds =
     (if length ds \<le> 3 then ds
      else groupThousands (take (length ds - 3) ds) @ '','' @ drop (length ds - 3) ds)"

declare groupThousands.simps [simp del]

fun stripTrailingZeros :: "string \<Rightarrow> string" where
  "stripTrailingZeros ds =
     (if ds \<noteq> [] \<and> last ds = CHR ''0'' then stripTrailingZeros (butlast ds) else ds)"

declare stripTrailingZeros.simps [simp del]

text \<open>
  \<open>Number.prototype.toLocaleString()\<close> with no arguments formats in the default locale of
  the host that runs the code. The functions of the engine that call it take the host's
  formatter as their first parameter (\<open>localeString\<close>, of type \<open>LocaleFormat\<close>). Two
  formatters are given here. \<open>toLocaleString\<close> is the one of an \<open>en-US\<close> host: at most three
  decimals (a tie rounding away from zero), trailing zeros dropped, the integer part
  grouped by commas. \<open>toLocaleStringDE\<close> is the one of a \<open>de-DE\<close> host, where the groups are
  separated by points and the decimals by a comma.
\<close>

type_synonym LocaleFormat = "rat \<Rightarrow> string"

definition toLocaleString :: "rat \<Rightarrow> string" where
  "toLocaleString x =
     (let s = (if x < 0 then ''-'' else '''');
          n = \<lfloor>\<bar>x\<bar> * 1000 + 1 / 2\<rfloor>;
          ip = groupThousands (natToString (n div 1000));
          fr = natToString (n mod 1000);
          fp = stripTrailingZeros (replicate (3 - length fr) (CHR ''0'') @ fr)
      in s @ ip @ (if fp = [] then [] else ''.'' @ fp))"


text \<open>
  A number inside a template literal (\<open>Number::toString\<close>): an integral value prints as its
  decimal numeral. A value with a fractional part prints its decimal expansion to at most
  17 decimals; the source's shortest round-trip form of the binary double is not modelled.
\<close>

definition numberToString :: "rat \<Rightarrow> string" where
  "numberToString x =
     (if x = of_int \<lfloor>x\<rfloor> then intToString \<lfloor>x\<rfloor>
      else (let s = (if x < 0 then ''-'' else '''');
                n = \<lfloor>\<bar>x\<bar> * 10 ^ 17\<rfloor>;
                fr = natToString (n mod 10 ^ 17);
                fp = stripTrailingZeros (replicate (17 - length fr) (CHR ''0'') @ fr)
            in s @ natToString (n div 10 ^ 17) @ (if fp = [] then [] else ''.'' @ fp)))"

text \<open>\<open>String.prototype.toLowerCase\<close> on ASCII letters; every other character is kept.\<close>

definition lowerChar :: "char \<Rightarrow> char" where
  "lowerChar c =
     (case map_of (zip ''ABCDEFGHIJKLMNOPQRSTUVWXYZ'' ''abcdefghijklmnopqrstuvwxyz'') c of
        Some d \<Rightarrow> d
      | None \<Rightarrow> c)"

definition toLowerCase :: "string \<Rightarrow> string" where
  "toLowerCase s = map lowerChar s"

text \<open>
  \<open>String.prototype.trim\<close>: white space is removed at both ends (the ASCII white space
  characters; the Unicode spaces that the source also removes lie outside \<open>char\<close>).
\<close>

definition isSpace :: "char \<Rightarrow> bool" where
  "isSpace c = (c \<in> set [CHR '' '', CHR 0x09, CHR 0x0A, CHR 0x0B, CHR 0x0C, CHR 0x0D])"

definition trim :: "string \<Rightarrow> string" where
  "trim s = rev (dropWhile isSpace (rev (dropWhile isSpace s)))"

text \<open>\<open>Array.prototype.join\<close>.\<close>

fun joinWith :: "string \<Rightarrow> string list \<Rightarrow> string" where
  "joinWith sep [] = []"
| "joinWith sep [s] = s"
| "joinWith sep (s # t # ss) = s @ sep @ joinWith sep (t # ss)"

text \<open>\<open>String.prototype.replace\<close> with one-character strings: the first occurrence only.\<close>

fun replaceFirst :: "char \<Rightarrow> char \<Rightarrow> string \<Rightarrow> string" where
  "replaceFirst a b [] = []"
| "replaceFirst a b (c # cs) = (if c = a then b # cs else c # replaceFirst a b cs)"


section \<open>The data model (\<open>shared/deals.ts\<close>, \<open>shared/lenders.ts\<close>)\<close>

datatype CreditTier = deep_subprime | subprime | near_prime | prime

record BackendProducts =
  gap :: bool
  vsc :: bool
  otherProductsTotal :: rat

datatype WarrantyReason = age | mileage | both

record RiskAssessment =
  isUpsideDown :: bool
  ltvPercent :: rat
  isOutOfWarranty :: bool
  outOfWarrantyReason :: "WarrantyReason option"
  vehicleAgeYears :: int
  ra_vehicleMileage :: rat
  recommendGap :: bool
  recommendVsc :: bool

record DealInput =
  vehicleId :: string
  vehicleYear :: int
  vehicleMake :: string
  vehicleMileage :: rat
  vehiclePrice :: rat
  vehicleCost :: rat
  taxRate :: rat
  fees :: rat
  downPayment :: rat
  tradeAllowance :: rat
  tradePayoff :: rat
  backendProducts :: BackendProducts
  customerCreditTier :: CreditTier
  targetPayment :: rat
  paymentTolerance :: rat
  preferredTermMonths :: "int option"
  monthlyIncome :: "rat option"

record VehicleEligibilityResult =
  isEligible :: bool
  ve_reasons :: "string list"
  advanceMultiplier :: rat
  warnings :: "string list"

datatype OptimizationLevel = optimal | vsc_stripped | all_stripped

record DealCandidate =
  lenderId :: string
  lenderName :: string
  termMonths :: int
  apr :: rat
  amountFinanced :: rat
  payment :: rat
  netCheckToDealer :: rat
  dealerFrontGross :: rat
  dealerBackEndGross :: rat
  dealerProfit :: rat
  totalDown :: rat
  backendTotal :: rat
  ltv :: rat
  withinGuidelines :: bool
  reasons :: "string list"
  adjustments :: "string list"
  hasGap :: bool
  hasVsc :: bool
  smartNote :: string
  riskAssessment :: "RiskAssessment option"
  optimizationLevel :: OptimizationLevel
  vehicleWarnings :: "string list"
  dc_advanceMultiplier :: rat
  ptiPercent :: "rat option"
  ptiWarning :: "string option"
  ptiExceedsLimit :: bool
  requiredIncome :: "rat option"

record DealConstraintsResult =
  isValid :: bool
  dcr_reasons :: "string list"

record LenderTierPricing =
  creditTier :: CreditTier
  minApr :: rat
  maxApr :: rat
  minDownPct :: rat
  baseAdvancePercent :: rat
  maxAdvancePercent :: rat
  maxLtvPercent :: rat

record VehicleRestrictions =
  maxAge :: int
  maxMileage :: rat
  excludedMakes :: "string list"

record YearRange =
  yearStart :: int
  yearEnd :: int

record VehiclePreference =
  prefMake :: string
  multiplier :: rat
  reason :: "string option"
  yearRange :: "YearRange option"

record LenderConfig =
  lc_id :: string
  name :: string
  active :: bool
  allowedTerms :: "int list"
  minAmountFinanced :: rat
  maxAmountFinanced :: rat
  maxBackendTotal :: rat
  maxBackendPercentOfAmount :: rat
  maxVehicleAgeYears :: int
  maxMiles :: rat
  lenderFeePercent :: rat
  pricingGrid :: "LenderTierPricing list"
  vehicleRestrictions :: VehicleRestrictions
  vehiclePreferences :: "VehiclePreference list"
  validateDeal :: "DealInput \<Rightarrow> rat \<Rightarrow> DealConstraintsResult"

section \<open>Valuation (\<open>shared/rehash.ts\<close>)\<close>

definition GAP_PRICE :: rat where "GAP_PRICE = 900"
definition VSC_PRICE :: rat where "VSC_PRICE = 1800"
definition WARRANTY_AGE_THRESHOLD :: int where "WARRANTY_AGE_THRESHOLD = 3"
definition WARRANTY_MILEAGE_THRESHOLD :: rat where "WARRANTY_MILEAGE_THRESHOLD = 36000"
definition THEFT_RISK_YEAR_START :: int where "THEFT_RISK_YEAR_START = 2011"
definition THEFT_RISK_YEAR_END :: int where "THEFT_RISK_YEAR_END = 2021"
definition THEFT_RISK_MAKES :: "string list" where "THEFT_RISK_MAKES = [''Kia'', ''Hyundai'']"

definition DEPRECIATION_SCHEDULE :: "(int \<times> rat) list" where
  "DEPRECIATION_SCHEDULE =
     [(0, 1.00), (1, 0.85), (2, 0.78), (3, 0.72), (4, 0.66), (5, 0.60),
      (6, 0.55), (7, 0.50), (8, 0.46), (9, 0.42), (10, 0.38)]"

record MileageBracket =
  maxMiles_b :: rat
  factor :: rat

definition MILEAGE_DEPRECIATION_BRACKETS :: "MileageBracket list" where
  "MILEAGE_DEPRECIATION_BRACKETS =
     [\<lparr>maxMiles_b = 30000, factor = 1.00\<rparr>,
      \<lparr>maxMiles_b = 60000, factor = 0.95\<rparr>,
      \<lparr>maxMiles_b = 90000, factor = 0.90\<rparr>,
      \<lparr>maxMiles_b = 120000, factor = 0.85\<rparr>,
      \<lparr>maxMiles_b = 150000, factor = 0.80\<rparr>,
      \<lparr>maxMiles_b = 180000, factor = 0.75\<rparr>]"

text \<open>
  \<open>calculateBookValue\<close>. The age is clamped at 10 and looked up in the schedule (a key the
  schedule lacks, which only a negative age can be, gives 0.35); the mileage factor is that
  of the first bracket whose bound is not below the mileage, 0.70 when there is none. The
  two multiplications are those of doubles, from left to right.
\<close>

definition calculateBookValue :: "rat \<Rightarrow> int \<Rightarrow> rat \<Rightarrow> rat" where
  "calculateBookValue retailPrice vehicleAge mileage0 =
     (let ageYears = min vehicleAge 10;
          ageFactor = (case map_of DEPRECIATION_SCHEDULE ageYears of
                         Some f \<Rightarrow> f | None \<Rightarrow> 0.35);
          mileageBracket = find (\<lambda>b. mileage0 \<le> maxMiles_b b) MILEAGE_DEPRECIATION_BRACKETS;
          mileageFactor = (case mileageBracket of Some b \<Rightarrow> factor b | None \<Rightarrow> 0.70);
          bookValue = doubleTimes (doubleTimes (toDouble retailPrice) (toDouble ageFactor))
                        (toDouble mileageFactor)
      in jsRound (doubleValue bookValue))"

text \<open>\<open>computeAmountFinanced\<close>.\<close>

definition computeAmountFinanced :: "DealInput \<Rightarrow> rat \<Rightarrow> rat" where
  "computeAmountFinanced deal backendTotal0 =
     (let taxableBase = vehiclePrice deal;
          tax = taxableBase * taxRate deal;
          gross = taxableBase + tax + fees deal + backendTotal0;
          totalDown0 = downPayment deal + tradeAllowance deal - tradePayoff deal
      in max (gross - totalDown0) 0)"

text \<open>
  The valuation rule as the specification words it: the age factor of the fixed schedule,
  ages above 10 taking the factor of age 10, and the mileage factor of the 30,000-mile
  brackets, 0.70 above the last one.
\<close>

definition spec_ageFactor :: "int \<Rightarrow> rat" where
  "spec_ageFactor a =
     (if a \<ge> 10 then 0.38
      else [1.00, 0.85, 0.78, 0.72, 0.66, 0.60, 0.55, 0.50, 0.46, 0.42] ! nat a)"

definition spec_mileageFactor :: "rat \<Rightarrow> rat" where
  "spec_mileageFactor m =
     (if m \<le> 30000 then 1.00
      else if m \<le> 60000 then 0.95
      else if m \<le> 90000 then 0.90
      else if m \<le> 120000 then 0.85
      else if m \<le> 150000 then 0.80
      else if m \<le> 180000 then 0.75
      else 0.70)"


section \<open>Vehicle eligibility\<close>

text \<open>
  The source reads the current year from the system clock
  (\<open>new Date().getFullYear()\<close>); the model takes it as the parameter \<open>currentYear\<close>.
\<close>

text \<open>The comparison \<open>a.toLowerCase() === b.toLowerCase()\<close>.\<close>

definition sameMake :: "string \<Rightarrow> string \<Rightarrow> bool" where
  "sameMake a b = (toLowerCase a = toLowerCase b)"

text \<open>\<open>pref.reason || fallback\<close>: an absent or empty reason gives the fallback.\<close>

definition reasonOr :: "string option \<Rightarrow> string \<Rightarrow> string" where
  "reasonOr r fallback = (case r of None \<Rightarrow> fallback | Some t \<Rightarrow> if t = [] then fallback else t)"

text \<open>
  One round of the loop over \<open>lender.vehiclePreferences\<close>; the state is the pair of
  \<open>advanceMultiplier\<close> and \<open>warnings\<close>.
\<close>

definition applyPreference ::
  "DealInput \<Rightarrow> string \<Rightarrow> rat \<times> string list \<Rightarrow> VehiclePreference \<Rightarrow> rat \<times> string list" where
  "applyPreference deal normalizedMake st pref =
     (let makeMatches = sameMake (prefMake pref) normalizedMake
      in if \<not> makeMatches then st
         else
           (let yearInRange =
                  (case yearRange pref of
                     None \<Rightarrow> True
                   | Some r \<Rightarrow> vehicleYear deal \<ge> yearStart r \<and> vehicleYear deal \<le> yearEnd r)
            in if yearInRange then
                 (let am = min (fst st) (multiplier pref)
                  in if multiplier pref < 1 then
                       (let penaltyPercent = toFixed 0 ((1 - multiplier pref) * 100)
                        in (am, snd st @
                              [reasonOr (reason pref) ''Risk Adjustment'' @ '': '' @ normalizedMake
                               @ '' '' @ intToString (vehicleYear deal)
                               @ '' (-'' @ penaltyPercent @ ''% advance)'']))
                     else if multiplier pref > 1 then
                       (let bonusPercent = toFixed 0 ((multiplier pref - 1) * 100)
                        in (am, snd st @
                              [reasonOr (reason pref) ''Preferred Make'' @ '': '' @ normalizedMake
                               @ '' (+'' @ bonusPercent @ ''% advance)'']))
                     else (am, snd st))
               else st))"

text \<open>The warning of the default theft-risk rule.\<close>

definition theftWarning :: "string \<Rightarrow> int \<Rightarrow> string" where
  "theftWarning normalizedMake year0 =
     ''Theft Risk: '' @ normalizedMake @ '' '' @ intToString year0
     @ '' (2011-2021 models lack immobilizers)''"

definition isVehicleEligible ::
  "LocaleFormat \<Rightarrow> int \<Rightarrow> DealInput \<Rightarrow> LenderConfig \<Rightarrow> VehicleEligibilityResult" where
  "isVehicleEligible localeString currentYear deal lender =
     (let vehicleAge = currentYear - vehicleYear deal;
          normalizedMake = trim (vehicleMake deal);
          restrictions = vehicleRestrictions lender;
          reasons1 =
            (if vehicleAge > maxAge restrictions then
               [''Vehicle too old: '' @ intToString vehicleAge @ '' years (max ''
                @ intToString (maxAge restrictions) @ '' years for '' @ name lender @ '')'']
             else []);
          reasons2 =
            (if vehicleMileage deal > maxMileage restrictions then
               [''Mileage too high: '' @ localeString (vehicleMileage deal) @ '' mi (max ''
                @ localeString (maxMileage restrictions) @ '' mi for '' @ name lender @ '')'']
             else []);
          isExcludedMake = list_ex (\<lambda>excluded. sameMake excluded normalizedMake)
                             (excludedMakes restrictions);
          reasons3 =
            (if isExcludedMake then [normalizedMake @ '' not eligible with '' @ name lender]
             else []);
          reasons0 = reasons1 @ reasons2 @ reasons3;
          preferences = vehiclePreferences lender;
          st = foldl (applyPreference deal normalizedMake) (1, []) preferences;
          isTheftRiskMake = list_ex (\<lambda>m. sameMake m normalizedMake) THEFT_RISK_MAKES;
          isTheftRiskYear = (vehicleYear deal \<ge> THEFT_RISK_YEAR_START
                             \<and> vehicleYear deal \<le> THEFT_RISK_YEAR_END);
          hasTheftPenalty =
            list_ex (\<lambda>p. sameMake (prefMake p) normalizedMake \<and>
                          (case yearRange p of
                             None \<Rightarrow> False
                           | Some r \<Rightarrow> vehicleYear deal \<ge> yearStart r \<and> vehicleYear deal \<le> yearEnd r))
                    preferences;
          st' = (if isTheftRiskMake \<and> isTheftRiskYear \<and> \<not> hasTheftPenalty \<and> fst st = 1
                 then (0.90, snd st @ [theftWarning normalizedMake (vehicleYear deal)])
                 else st)
      in \<lparr>isEligible = (reasons0 = []),
          ve_reasons = reasons0,
          advanceMultiplier = fst st',
          warnings = snd st'\<rparr>)"

section \<open>Risk assessment and payments\<close>

definition assessRisk :: "int \<Rightarrow> DealInput \<Rightarrow> RiskAssessment" where
  "assessRisk currentYear deal =
     (let vehicleAgeYears0 = currentYear - vehicleYear deal;
          bookValue = calculateBookValue (vehiclePrice deal) vehicleAgeYears0 (vehicleMileage deal);
          taxableBase = vehiclePrice deal;
          tax = taxableBase * taxRate deal;
          baseAmountFinanced = taxableBase + tax + fees deal;
          totalDown0 = downPayment deal + tradeAllowance deal - tradePayoff deal;
          preliminaryAmountFinanced = max (baseAmountFinanced - totalDown0) 0;
          ltvPercent0 = (if bookValue > 0 then (preliminaryAmountFinanced / bookValue) * 100 else 0);
          isUpsideDown0 = (ltvPercent0 > 100);
          isOverAge = (vehicleAgeYears0 > WARRANTY_AGE_THRESHOLD);
          isOverMileage = (vehicleMileage deal > WARRANTY_MILEAGE_THRESHOLD);
          isOutOfWarranty0 = (isOverAge \<or> isOverMileage);
          outOfWarrantyReason0 =
            (if isOverAge \<and> isOverMileage then Some both
             else if isOverAge then Some age
             else if isOverMileage then Some mileage
             else None)
      in \<lparr>isUpsideDown = isUpsideDown0,
          ltvPercent = ltvPercent0,
          isOutOfWarranty = isOutOfWarranty0,
          outOfWarrantyReason = outOfWarrantyReason0,
          vehicleAgeYears = vehicleAgeYears0,
          ra_vehicleMileage = vehicleMileage deal,
          recommendGap = isUpsideDown0,
          recommendVsc = isOutOfWarranty0\<rparr>)"

text \<open>
  \<open>calculateMonthlyPayment\<close>. The result is \<open>None\<close> where the source divides by zero and
  goes on with an infinity or \<open>NaN\<close>: a zero term at a zero rate, or a denominator that
  vanishes. At a monthly rate of \<open>-1\<close> and a positive term the source's power is
  \<open>+Infinity\<close> and its quotient is zero.
\<close>

definition calculateMonthlyPayment :: "rat \<Rightarrow> rat \<Rightarrow> int \<Rightarrow> rat option" where
  "calculateMonthlyPayment amountFinanced0 apr0 termMonths0 =
     (let monthlyRate = apr0 / 100 / 12
      in if monthlyRate = 0 then
           (if termMonths0 = 0 then None else Some (amountFinanced0 / of_int termMonths0))
         else
           (let numerator = monthlyRate * amountFinanced0
            in if 1 + monthlyRate = 0 \<and> 0 < termMonths0 then Some 0
               else
                 (let denominator = 1 - power_int (1 + monthlyRate) (- termMonths0)
                  in if denominator = 0 then None else Some (numerator / denominator))))"

text \<open>
  \<open>calculateRiskScore\<close>. At a zero vehicle price the source's quotient is \<open>+Infinity\<close> for
  a positive down payment (the top bonus) and \<open>NaN\<close> or \<open>-Infinity\<close> otherwise (no bonus).
\<close>

definition calculateRiskScore :: "int \<Rightarrow> DealInput \<Rightarrow> LenderConfig \<Rightarrow> rat" where
  "calculateRiskScore currentYear deal lender =
     (let score0 = 50;
          score1 = score0 + (case customerCreditTier deal of
                               prime \<Rightarrow> 30 | near_prime \<Rightarrow> 15 | subprime \<Rightarrow> 0
                             | deep_subprime \<Rightarrow> - 20);
          score2 =
            (if vehiclePrice deal = 0 then (if downPayment deal > 0 then score1 + 15 else score1)
             else
               (let downPct = downPayment deal / vehiclePrice deal
                in if downPct \<ge> 0.20 then score1 + 15
                   else if downPct \<ge> 0.15 then score1 + 10
                   else if downPct \<ge> 0.10 then score1 + 5
                   else score1));
          vehicleAge = currentYear - vehicleYear deal;
          score3 = (if vehicleAge > 10 then score2 - 15
                    else if vehicleAge > 7 then score2 - 10
                    else if vehicleAge > 5 then score2 - 5
                    else score2);
          score4 = (if vehicleMileage deal > 150000 then score3 - 15
                    else if vehicleMileage deal > 120000 then score3 - 10
                    else if vehicleMileage deal > 90000 then score3 - 5
                    else score3);
          make0 = toLowerCase (vehicleMake deal);
          preferredMakes = [''toyota'', ''honda'', ''lexus'', ''subaru''];
          riskyMakes = [''kia'', ''hyundai'', ''nissan'', ''dodge''];
          score5 = (if make0 \<in> set preferredMakes then score4 + 10 else score4);
          score6 = (if make0 \<in> set riskyMakes then score5 - 10 else score5)
      in max 0 (min 100 score6))"

definition PTI_LIMITS :: "CreditTier \<Rightarrow> rat" where
  "PTI_LIMITS t = (case t of deep_subprime \<Rightarrow> 0.25 | subprime \<Rightarrow> 0.18
                   | near_prime \<Rightarrow> 0.15 | prime \<Rightarrow> 0.12)"

definition getPtiLimit :: "CreditTier \<Rightarrow> rat" where
  "getPtiLimit t = PTI_LIMITS t"

definition calculatePTI :: "rat \<Rightarrow> rat \<Rightarrow> rat" where
  "calculatePTI payment0 income = (if income \<le> 0 then 0 else payment0 / income)"

definition calculateRequiredIncome :: "rat \<Rightarrow> rat \<Rightarrow> rat" where
  "calculateRequiredIncome payment0 ptiLimit = (if ptiLimit \<le> 0 then 0 else payment0 / ptiLimit)"

record PtiResult =
  pr_ptiPercent :: "rat option"
  pr_ptiWarning :: "string option"
  pr_ptiExceedsLimit :: bool
  pr_requiredIncome :: "rat option"

definition creditTierName :: "CreditTier \<Rightarrow> string" where
  "creditTierName t = (case t of deep_subprime \<Rightarrow> ''deep_subprime'' | subprime \<Rightarrow> ''subprime''
                       | near_prime \<Rightarrow> ''near_prime'' | prime \<Rightarrow> ''prime'')"

definition evaluatePTI ::
  "LocaleFormat \<Rightarrow> rat \<Rightarrow> rat option \<Rightarrow> CreditTier \<Rightarrow> PtiResult" where
  "evaluatePTI localeString payment0 monthlyIncome0 tier =
     (let ptiLimit = getPtiLimit tier;
          requiredIncome0 = calculateRequiredIncome payment0 ptiLimit
      in case (case monthlyIncome0 of
                 None \<Rightarrow> None
               | Some i \<Rightarrow> if i = 0 \<or> i \<le> 0 then None else Some i) of
           None \<Rightarrow>
             \<lparr>pr_ptiPercent = None, pr_ptiWarning = None, pr_ptiExceedsLimit = False,
              pr_requiredIncome = Some (jsCeil requiredIncome0)\<rparr>
         | Some income \<Rightarrow>
             (let pti = calculatePTI payment0 income;
                  ptiPercent0 = pti * 100;
                  ptiExceedsLimit0 = (pti > ptiLimit);
                  ptiWarning0 =
                    (if ptiExceedsLimit0 then
                       (let limitPercent = toFixed 0 (ptiLimit * 100)
                        in Some (''High PTI ('' @ toFixed 0 ptiPercent0 @ ''%). Max '' @ limitPercent
                                 @ ''% for '' @ replaceFirst (CHR ''_'') (CHR '' '') (creditTierName tier)
                                 @ ''. Requires income of $'' @ localeString requiredIncome0 @ ''+''))
                     else None)
              in \<lparr>pr_ptiPercent = Some ptiPercent0, pr_ptiWarning = ptiWarning0,
                  pr_ptiExceedsLimit = ptiExceedsLimit0,
                  pr_requiredIncome = Some (jsCeil requiredIncome0)\<rparr>))"


section \<open>Smart notes and backend scenarios\<close>

definition generateSmartNote ::
  "LocaleFormat \<Rightarrow> bool \<Rightarrow> bool \<Rightarrow> RiskAssessment \<Rightarrow> OptimizationLevel \<Rightarrow> string" where
  "generateSmartNote localeString hasGap0 hasVsc0 ra level =
     (let notes =
            (case level of
               optimal \<Rightarrow>
                 (if hasGap0 \<and> isUpsideDown ra then
                    [''Added GAP due to high LTV ('' @ toFixed 0 (ltvPercent ra) @ ''%)'']
                  else [])
                 @ (if hasVsc0 \<and> isOutOfWarranty ra then
                      (case outOfWarrantyReason ra of
                         Some mileage \<Rightarrow>
                           [''Added VSC due to high mileage (''
                            @ localeString (ra_vehicleMileage ra) @ '' mi)'']
                       | Some age \<Rightarrow>
                           [''Added VSC due to vehicle age (''
                            @ intToString (vehicleAgeYears ra) @ '' years old)'']
                       | Some both \<Rightarrow>
                           [''Added VSC - vehicle out of warranty (''
                            @ intToString (vehicleAgeYears ra) @ ''yr, ''
                            @ localeString (ra_vehicleMileage ra) @ ''mi)'']
                       | None \<Rightarrow> [])
                    else [])
                 @ (if hasGap0 \<and> \<not> isUpsideDown ra then [''GAP included for maximum protection'']
                    else [])
                 @ (if hasVsc0 \<and> \<not> isOutOfWarranty ra then [''VSC included for extended coverage'']
                    else [])
             | vsc_stripped \<Rightarrow>
                 [''Removed VSC to meet payment target'']
                 @ (if hasGap0 then [''GAP retained for negative equity protection''] else [])
             | all_stripped \<Rightarrow> [''Products removed to meet lender/payment requirements'']);
          notes' =
            (if notes = [] then
               (if \<not> hasGap0 \<and> \<not> hasVsc0 then [''No products - maximizing approval odds'']
                else [''Optimal product coverage included''])
             else notes)
      in joinWith ''. '' notes')"

record BackendScenario =
  label :: string
  scenarioValue :: rat
  bs_hasGap :: bool
  bs_hasVsc :: bool
  bs_optimizationLevel :: OptimizationLevel

text \<open>The closure \<open>buildSmartScenarios\<close> of \<open>runRehash\<close>, with what it captures as arguments.\<close>

definition buildSmartScenarios ::
  "DealInput \<Rightarrow> RiskAssessment \<Rightarrow> LenderConfig \<Rightarrow> BackendScenario list" where
  "buildSmartScenarios deal ra lender =
     (let other = otherProductsTotal (backendProducts deal);
          optimalGap = (recommendGap ra \<or> gap (backendProducts deal));
          optimalVsc = (recommendVsc ra \<or> vsc (backendProducts deal));
          optimalValue = min ((if optimalGap then GAP_PRICE else 0)
                              + (if optimalVsc then VSC_PRICE else 0) + other)
                             (maxBackendTotal lender);
          scenarios1 =
            [\<lparr>label = ''Optimal Coverage'', scenarioValue = optimalValue,
              bs_hasGap = optimalGap, bs_hasVsc = optimalVsc, bs_optimizationLevel = optimal\<rparr>];
          scenarios2 =
            (if optimalVsc then
               (let vscStrippedValue = min ((if optimalGap then GAP_PRICE else 0) + other)
                                           (maxBackendTotal lender)
                in scenarios1 @
                   [\<lparr>label = ''GAP Only'', scenarioValue = vscStrippedValue,
                     bs_hasGap = optimalGap, bs_hasVsc = False,
                     bs_optimizationLevel = vsc_stripped\<rparr>])
             else scenarios1)
      in scenarios2 @
         [\<lparr>label = ''No Products'', scenarioValue = other,
           bs_hasGap = False, bs_hasVsc = False, bs_optimizationLevel = all_stripped\<rparr>])"

section \<open>Lender advances, net check and profit\<close>

datatype AdvanceType = cost_based | payment_based | risk_adjusted

record TierAdvances =
  platinum :: rat
  gold :: rat
  standard :: rat

record NumRange =
  rangeMin :: rat
  rangeMax :: rat

record LenderAdvanceConfig =
  advType :: AdvanceType
  tierAdvances :: "TierAdvances option"
  dealerTierPenalty :: "rat option"
  paymentMultiplierRange :: "NumRange option"
  baseAdvance :: "rat option"
  riskAdjustmentRange :: "NumRange option"
  docFee :: rat
  originationFee :: rat
  holdbackPercent :: rat
  miscFees :: rat

definition LENDER_ADVANCE_CONFIGS :: "(string \<times> LenderAdvanceConfig) list" where
  "LENDER_ADVANCE_CONFIGS =
     [(''westlake'',
       \<lparr>advType = cost_based,
        tierAdvances = Some \<lparr>platinum = 1.12, gold = 1.10, standard = 1.08\<rparr>,
        dealerTierPenalty = Some 0.025,
        paymentMultiplierRange = None, baseAdvance = None, riskAdjustmentRange = None,
        docFee = 799, originationFee = 595, holdbackPercent = 0.02, miscFees = 150\<rparr>),
      (''western_funding'',
       \<lparr>advType = payment_based,
        tierAdvances = None, dealerTierPenalty = None,
        paymentMultiplierRange = Some \<lparr>rangeMin = 1.20, rangeMax = 1.45\<rparr>,
        baseAdvance = None, riskAdjustmentRange = None,
        docFee = 695, originationFee = 495, holdbackPercent = 0.025, miscFees = 125\<rparr>),
      (''uac'',
       \<lparr>advType = risk_adjusted,
        tierAdvances = None, dealerTierPenalty = None, paymentMultiplierRange = None,
        baseAdvance = Some 1.10,
        riskAdjustmentRange = Some \<lparr>rangeMin = - 0.10, rangeMax = 0.08\<rparr>,
        docFee = 650, originationFee = 450, holdbackPercent = 0.018, miscFees = 100\<rparr>)]"

definition pickApr :: "LenderConfig \<Rightarrow> CreditTier \<Rightarrow> rat option" where
  "pickApr lender tier =
     (case find (\<lambda>p. creditTier p = tier) (pricingGrid lender) of
        None \<Rightarrow> None
      | Some row \<Rightarrow> Some ((minApr row + maxApr row) / 2))"

definition calculateFallbackAdvance ::
  "DealInput \<Rightarrow> LenderTierPricing \<Rightarrow> rat \<Rightarrow> rat \<Rightarrow> rat \<Rightarrow> rat" where
  "calculateFallbackAdvance deal tierRow amountFinanced0 bookValue advanceMultiplier0 =
     (let baseAdvance0 = (baseAdvancePercent tierRow / 100) * vehicleCost deal * advanceMultiplier0;
          maxAdvanceByCost = (maxAdvancePercent tierRow / 100) * vehicleCost deal * advanceMultiplier0;
          maxAdvanceByLtv = (maxLtvPercent tierRow / 100) * bookValue * advanceMultiplier0
      in min amountFinanced0 (min maxAdvanceByCost maxAdvanceByLtv))"

text \<open>
  What a run can meet besides a result: \<open>TypeError\<close> where the source reads a field of an
  absent object (a non-null assertion on a missing range), \<open>NonFinite\<close> where it divides by
  zero and goes on with an infinity or \<open>NaN\<close>, which this model does not follow.
\<close>

datatype rehash_error = NonFinite | TypeError

record NetCheckResult =
  nc_netCheckToDealer :: rat
  nc_dealerFrontGross :: rat
  nc_dealerBackEndGross :: rat
  nc_dealerProfit :: rat
  nc_totalDown :: rat
  nc_ltv :: rat
  nc_bookValue :: rat

text \<open>
  \<open>estimateNetCheckAndProfit\<close>. The table \<open>LENDER_ADVANCE_CONFIGS\<close> is read at the lender's
  id (its own three keys). The line it writes to the console is not part of the
  result; it is followed in the section on the host.
\<close>

definition estimateNetCheckAndProfit ::
  "int \<Rightarrow> DealInput \<Rightarrow> LenderConfig \<Rightarrow> LenderTierPricing \<Rightarrow> rat \<Rightarrow> rat \<Rightarrow> rat
     \<Rightarrow> rehash_error + NetCheckResult" where
  "estimateNetCheckAndProfit currentYear deal lender tierRow amountFinanced0 backendTotal0
       advanceMultiplier0 =
     (let vehicleAge = currentYear - vehicleYear deal;
          bookValue = calculateBookValue (vehiclePrice deal) vehicleAge (vehicleMileage deal);
          ltv0 = (if bookValue > 0 then (amountFinanced0 / bookValue) * 100 else 999);
          grossAdvance =
            (case map_of LENDER_ADVANCE_CONFIGS (lc_id lender) of
               Some advanceConfig \<Rightarrow>
                 (case (case advType advanceConfig of
                          cost_based \<Rightarrow>
                            (let tierMultiplier =
                                   (case tierAdvances advanceConfig of
                                      Some t \<Rightarrow> standard t | None \<Rightarrow> 1.08);
                                 costBasedAdvance =
                                   vehicleCost deal * tierMultiplier * advanceMultiplier0
                             in Inr (min amountFinanced0 costBasedAdvance))
                        | payment_based \<Rightarrow>
                            (case paymentMultiplierRange advanceConfig of
                               None \<Rightarrow> Inl TypeError
                             | Some range0 \<Rightarrow>
                                 (let creditMultiplier =
                                        (if customerCreditTier deal = deep_subprime then rangeMin range0
                                         else if customerCreditTier deal = subprime
                                           then (rangeMin range0 + rangeMax range0) / 2
                                         else if customerCreditTier deal = near_prime
                                           then rangeMax range0 * 0.95
                                         else rangeMax range0);
                                      paymentBasedAdvance =
                                        vehicleCost deal * creditMultiplier * advanceMultiplier0
                                  in Inr (min amountFinanced0 paymentBasedAdvance)))
                        | risk_adjusted \<Rightarrow>
                            (let riskScore = calculateRiskScore currentYear deal lender
                             in case riskAdjustmentRange advanceConfig of
                                  None \<Rightarrow> Inl TypeError
                                | Some range0 \<Rightarrow>
                                    (let riskAdjustment =
                                           rangeMin range0
                                           + ((riskScore / 100) * (rangeMax range0 - rangeMin range0));
                                         baseAdvance0 =
                                           (case baseAdvance advanceConfig of
                                              Some b \<Rightarrow> b | None \<Rightarrow> 1.10);
                                         riskAdjustedMultiplier = baseAdvance0 + riskAdjustment;
                                         riskBasedAdvance =
                                           vehicleCost deal * riskAdjustedMultiplier
                                           * advanceMultiplier0
                                     in Inr (min amountFinanced0 riskBasedAdvance)))) of
                    Inl e \<Rightarrow> Inl e
                  | Inr g \<Rightarrow>
                      (let totalFees = docFee advanceConfig + originationFee advanceConfig
                                       + miscFees advanceConfig;
                           holdback = g * holdbackPercent advanceConfig
                       in Inr (g - totalFees - holdback)))
             | None \<Rightarrow>
                 (let g = calculateFallbackAdvance deal tierRow amountFinanced0 bookValue
                            advanceMultiplier0;
                      lenderFee = (lenderFeePercent lender / 100) * amountFinanced0
                  in Inr (g - lenderFee)))
      in case grossAdvance of
           Inl e \<Rightarrow> Inl e
         | Inr g \<Rightarrow>
             (let netCheck = max (g - tradePayoff deal) 0;
                  totalDown0 = downPayment deal + tradeAllowance deal - tradePayoff deal;
                  frontGross = vehiclePrice deal - vehicleCost deal;
                  backGross = backendTotal0;
                  dealerProfit0 = netCheck + totalDown0 - vehicleCost deal - fees deal
              in Inr \<lparr>nc_netCheckToDealer = netCheck,
                      nc_dealerFrontGross = frontGross,
                      nc_dealerBackEndGross = backGross,
                      nc_dealerProfit = dealerProfit0,
                      nc_totalDown = totalDown0,
                      nc_ltv = ltv0,
                      nc_bookValue = bookValue\<rparr>))"


section \<open>The rehash engine\<close>

record RehashResult =
  bestDeal :: "DealCandidate option"
  allCandidates :: "DealCandidate list"
  rr_riskAssessment :: RiskAssessment

text \<open>
  A \<open>forEach\<close> whose callback pushes candidates: the callback's pushes are appended in
  order, and the first error ends the run.
\<close>

fun collect :: "('a \<Rightarrow> rehash_error + 'b list) \<Rightarrow> 'a list \<Rightarrow> rehash_error + 'b list" where
  "collect f [] = Inr []"
| "collect f (x # xs) =
     (case f x of
        Inl e \<Rightarrow> Inl e
      | Inr ys \<Rightarrow> (case collect f xs of Inl e \<Rightarrow> Inl e | Inr zs \<Rightarrow> Inr (ys @ zs)))"

text \<open>
  The tail of the innermost callback of \<open>runRehash\<close>: the adjustment lines, the
  smart note, the PTI evaluation and the candidate that is pushed.
\<close>

definition makeCandidate ::
  "LocaleFormat \<Rightarrow> DealInput \<Rightarrow> RiskAssessment \<Rightarrow> LenderConfig \<Rightarrow> VehicleEligibilityResult \<Rightarrow> rat \<Rightarrow> int
     \<Rightarrow> rat \<Rightarrow> BackendScenario \<Rightarrow> rat \<Rightarrow> DealConstraintsResult \<Rightarrow> rat \<Rightarrow> NetCheckResult
     \<Rightarrow> DealCandidate" where
  "makeCandidate localeString deal ra lender eligibility apr0 term0 down scenario
       amountFinanced0 check payment0 nc =
    (let adjustments1 =
           [name lender @ '': '' @ intToString term0 @ '' months @ '' @ toFixed 2 apr0 @ ''% APR''];
         adjustments2 =
           (if down \<noteq> downPayment deal then
              adjustments1 @
              [''Increased down from $'' @ toFixed 0 (downPayment deal) @ '' to $'' @ toFixed 0 down]
            else adjustments1);
         productParts = (if bs_hasGap scenario then [''GAP''] else [])
                        @ (if bs_hasVsc scenario then [''VSC''] else []);
         adjustments3 =
           (if productParts \<noteq> [] then
              adjustments2 @
              [''Products: '' @ joinWith '' + '' productParts @ '' ($''
               @ toFixed 0 (scenarioValue scenario) @ '')'']
            else adjustments2 @ [''No products - lean structure'']);
         adjustments4 =
           (if advanceMultiplier eligibility \<noteq> 1 then
              (let adjustmentPercent = toFixed 0 ((1 - advanceMultiplier eligibility) * 100)
               in if advanceMultiplier eligibility < 1 then
                    adjustments3 @
                    [''Advance reduced by '' @ adjustmentPercent @ ''% (vehicle risk)'']
                  else
                    (let bonusPercent = toFixed 0 ((advanceMultiplier eligibility - 1) * 100)
                     in adjustments3 @
                        [''Advance increased by '' @ bonusPercent @ ''% (preferred vehicle)'']))
            else adjustments3);
         smartNote1 = generateSmartNote localeString (bs_hasGap scenario) (bs_hasVsc scenario)
                        ra (bs_optimizationLevel scenario);
         smartNote2 =
           (if warnings eligibility \<noteq> [] then
              smartNote1 @ ''. '' @ joinWith ''. '' (warnings eligibility)
            else smartNote1);
         ptiResult = evaluatePTI localeString payment0 (monthlyIncome deal)
                       (customerCreditTier deal);
         adjustments5 =
           (case pr_ptiWarning ptiResult of
              Some w \<Rightarrow> if pr_ptiExceedsLimit ptiResult \<and> w \<noteq> [] then adjustments4 @ [w]
                        else adjustments4
            | None \<Rightarrow> adjustments4)
     in \<lparr>lenderId = lc_id lender,
              lenderName = name lender,
              termMonths = term0,
              apr = apr0,
              amountFinanced = amountFinanced0,
              payment = payment0,
              netCheckToDealer = nc_netCheckToDealer nc,
              dealerFrontGross = nc_dealerFrontGross nc,
              dealerBackEndGross = nc_dealerBackEndGross nc,
              dealerProfit = nc_dealerProfit nc,
              totalDown = nc_totalDown nc,
              backendTotal = scenarioValue scenario,
              ltv = nc_ltv nc,
              withinGuidelines = True,
              reasons = dcr_reasons check,
              adjustments = adjustments5,
              hasGap = bs_hasGap scenario,
              hasVsc = bs_hasVsc scenario,
              smartNote = smartNote2,
              riskAssessment = Some ra,
              optimizationLevel = bs_optimizationLevel scenario,
              vehicleWarnings = warnings eligibility,
              dc_advanceMultiplier = advanceMultiplier eligibility,
              ptiPercent = pr_ptiPercent ptiResult,
              ptiWarning = pr_ptiWarning ptiResult,
              ptiExceedsLimit = pr_ptiExceedsLimit ptiResult,
              requiredIncome = pr_requiredIncome ptiResult\<rparr>)"

text \<open>
  The innermost callback of \<open>runRehash\<close>, for one term, one down payment and one
  backend scenario: the empty list where the source returns early, one candidate where it
  pushes.
\<close>

definition evaluateScenario ::
  "LocaleFormat \<Rightarrow> int \<Rightarrow> DealInput \<Rightarrow> RiskAssessment \<Rightarrow> LenderConfig \<Rightarrow> VehicleEligibilityResult
     \<Rightarrow> LenderTierPricing \<Rightarrow> rat \<Rightarrow> int \<Rightarrow> rat \<Rightarrow> BackendScenario
     \<Rightarrow> rehash_error + DealCandidate list" where
  "evaluateScenario localeString currentYear deal ra lender eligibility tierRow apr0 term0 down
       scenario =
     (let modifiedDeal = deal\<lparr>downPayment := down\<rparr>;
          amountFinanced0 = computeAmountFinanced modifiedDeal (scenarioValue scenario)
      in if amountFinanced0 < minAmountFinanced lender \<or> amountFinanced0 > maxAmountFinanced lender
         then Inr []
         else
           (let backendPct = (if amountFinanced0 > 0
                              then (scenarioValue scenario / amountFinanced0) * 100 else 999)
            in if backendPct > maxBackendPercentOfAmount lender then Inr []
               else
                 (let check = validateDeal lender modifiedDeal amountFinanced0
                  in if \<not> isValid check then Inr []
                     else
                       (let bookValue = calculateBookValue (vehiclePrice deal)
                                          (currentYear - vehicleYear deal) (vehicleMileage deal);
                            ltv0 = (if bookValue > 0 then (amountFinanced0 / bookValue) * 100
                                    else 999)
                        in if ltv0 > maxLtvPercent tierRow then Inr []
                           else
                             (case calculateMonthlyPayment amountFinanced0 apr0 term0 of
                                None \<Rightarrow> Inl NonFinite
                              | Some payment0 \<Rightarrow>
                                  (case estimateNetCheckAndProfit currentYear modifiedDeal lender
                                          tierRow amountFinanced0 (scenarioValue scenario)
                                          (advanceMultiplier eligibility) of
                                     Inl e \<Rightarrow> Inl e
                                   | Inr nc \<Rightarrow>
                                       Inr [makeCandidate localeString deal ra lender
                                              eligibility apr0 term0 down scenario
                                              amountFinanced0 check payment0 nc]))))))"

text \<open>The callback of \<open>activeLenders.forEach\<close>: everything one lender contributes.\<close>

definition lenderCandidates ::
  "LocaleFormat \<Rightarrow> int \<Rightarrow> DealInput \<Rightarrow> RiskAssessment \<Rightarrow> LenderConfig
     \<Rightarrow> rehash_error + DealCandidate list" where
  "lenderCandidates localeString currentYear deal ra lender =
     (let eligibility = isVehicleEligible localeString currentYear deal lender
      in if \<not> isEligible eligibility then Inr []
         else
           (let vehicleAge = currentYear - vehicleYear deal
            in if vehicleAge > maxVehicleAgeYears lender then Inr []
               else if vehicleMileage deal > maxMiles lender then Inr []
               else
                 (case find (\<lambda>p. creditTier p = customerCreditTier deal) (pricingGrid lender) of
                    None \<Rightarrow> Inr []
                  | Some tierRow \<Rightarrow>
                      (case pickApr lender (customerCreditTier deal) of
                         None \<Rightarrow> Inr []
                       | Some apr0 \<Rightarrow>
                           (let terms = allowedTerms lender;
                                backendScenarios = buildSmartScenarios deal ra lender;
                                downOptions = [downPayment deal, downPayment deal + 500,
                                               downPayment deal + 1000]
                            in collect (\<lambda>term0.
                                 collect (\<lambda>down.
                                   collect (\<lambda>scenario.
                                     evaluateScenario localeString currentYear deal ra lender
                                       eligibility tierRow apr0 term0 down scenario)
                                   backendScenarios)
                                 downOptions)
                               terms)))))"

text \<open>The candidate list as it stands when the loop over the active lenders ends.\<close>

definition generateCandidates ::
  "LocaleFormat \<Rightarrow> int \<Rightarrow> DealInput \<Rightarrow> LenderConfig list
     \<Rightarrow> rehash_error + DealCandidate list" where
  "generateCandidates localeString currentYear deal lenders =
     (let ra = assessRisk currentYear deal;
          activeLenders = filter active lenders
      in collect (lenderCandidates localeString currentYear deal ra) activeLenders)"

text \<open>The comparator handed to \<open>sort\<close>.\<close>

definition compareCandidates :: "DealInput \<Rightarrow> DealCandidate \<Rightarrow> DealCandidate \<Rightarrow> rat" where
  "compareCandidates deal a b =
     (if netCheckToDealer b \<noteq> netCheckToDealer a then netCheckToDealer b - netCheckToDealer a
      else
        (let aGap = \<bar>payment a - targetPayment deal\<bar>;
             bGap = \<bar>payment b - targetPayment deal\<bar>
         in aGap - bGap))"

text \<open>
  \<open>Array.prototype.sort\<close> with a comparator. The language requires a stable sort, and for
  a consistent comparator stability fixes the result; it is modelled by the stable
  insertion sort.
\<close>

fun insertSorted :: "('a \<Rightarrow> 'a \<Rightarrow> rat) \<Rightarrow> 'a \<Rightarrow> 'a list \<Rightarrow> 'a list" where
  "insertSorted cmp x [] = [x]"
| "insertSorted cmp x (y # ys) =
     (if cmp x y \<le> 0 then x # y # ys else y # insertSorted cmp x ys)"

definition arraySort :: "('a \<Rightarrow> 'a \<Rightarrow> rat) \<Rightarrow> 'a list \<Rightarrow> 'a list" where
  "arraySort cmp xs = foldr (insertSorted cmp) xs []"

definition runRehash ::
  "LocaleFormat \<Rightarrow> int \<Rightarrow> DealInput \<Rightarrow> LenderConfig list \<Rightarrow> rehash_error + RehashResult" where
  "runRehash localeString currentYear deal lenders =
     (let riskAssessment0 = assessRisk currentYear deal
      in case generateCandidates localeString currentYear deal lenders of
           Inl e \<Rightarrow> Inl e
         | Inr candidates \<Rightarrow>
             (let targetLow = targetPayment deal - paymentTolerance deal;
                  targetHigh = targetPayment deal + paymentTolerance deal;
                  withinPayment = filter (\<lambda>c. payment c \<ge> targetLow \<and> payment c \<le> targetHigh)
                                    candidates;
                  pool = (if length withinPayment > 0 then withinPayment else candidates);
                  sorted0 = arraySort (compareCandidates deal) pool;
                  bestDeal0 = (if length sorted0 > 0 then Some (sorted0 ! 0) else None)
              in Inr \<lparr>bestDeal = bestDeal0, allCandidates = sorted0,
                      rr_riskAssessment = riskAssessment0\<rparr>))"

section \<open>The host of a run: clock, locale and console\<close>




section \<open>The compliance filter (\<open>shared/bankFirstTriage.ts\<close>)\<close>

record BankRules =
  ltvCap :: rat
  mandatoryVsc :: bool
  mandatoryGap :: bool
  maxPaymentToIncome :: "rat option"

record RejectedDeal =
  rd_deal :: DealCandidate
  violations :: "string list"

record ComplianceResult =
  validDeals :: "DealCandidate list"
  rejectedDeals :: "RejectedDeal list"

text \<open>The violation messages of \<open>filterCompliantDeals\<close>.\<close>

definition ltvViolation :: "DealCandidate \<Rightarrow> BankRules \<Rightarrow> string" where
  "ltvViolation deal rules =
     ''LTV '' @ toFixed 0 (ltv deal) @ ''% exceeds cap of '' @ numberToString (ltvCap rules) @ ''%''"

text \<open>
  The body of the loop of \<open>filterCompliantDeals\<close> up to the test of \<open>violations.length\<close>.
  A number is truthy unless it is zero.
\<close>

definition dealViolations :: "BankRules \<Rightarrow> DealCandidate \<Rightarrow> string list" where
  "dealViolations rules deal =
     (if ltv deal > ltvCap rules then [ltvViolation deal rules] else [])
     @ (if mandatoryVsc rules \<and> \<not> hasVsc deal
        then [''Mandatory VSC missing (high mileage vehicle)''] else [])
     @ (if mandatoryGap rules \<and> \<not> hasGap deal
        then [''Mandatory GAP missing (negative equity)''] else [])
     @ (case (maxPaymentToIncome rules, ptiPercent deal) of
          (Some m, Some p) \<Rightarrow>
            if m \<noteq> 0 \<and> p \<noteq> 0 then
              (let ptiLimit = m * 100
               in if p > ptiLimit then
                    [''PTI '' @ toFixed 0 p @ ''% exceeds limit of '' @ toFixed 0 ptiLimit @ ''%'']
                  else [])
            else []
        | _ \<Rightarrow> [])"

definition filterCompliantDeals :: "DealCandidate list \<Rightarrow> BankRules \<Rightarrow> ComplianceResult" where
  "filterCompliantDeals deals rules =
     foldl (\<lambda>acc deal.
              (let violations0 = dealViolations rules deal
               in if length violations0 = 0
                  then acc\<lparr>validDeals := validDeals acc @ [deal]\<rparr>
                  else acc\<lparr>rejectedDeals := rejectedDeals acc
                             @ [\<lparr>rd_deal = deal, violations = violations0\<rparr>]\<rparr>))
           \<lparr>validDeals = [], rejectedDeals = []\<rparr> deals"

text \<open>
  \<open>determineBankRules\<close>; the credit tier arrives as a string. \<open>ltvCaps[creditTier] || 120\<close>
  falls back to 120 for a key the table lacks (its own four keys are modelled).
\<close>

definition determineBankRules :: "rat \<Rightarrow> rat \<Rightarrow> string \<Rightarrow> BankRules" where
  "determineBankRules vehicleMileage0 ltvPercent0 creditTier0 =
     (let HIGH_MILEAGE_THRESHOLD = 100000;
          HIGH_LTV_THRESHOLD = 110;
          ltvCaps = [(''prime'', 130), (''near_prime'', 125), (''subprime'', 120),
                     (''deep_subprime'', 115)];
          ptiLimits = [(''prime'', 0.12), (''near_prime'', 0.15), (''subprime'', 0.18),
                       (''deep_subprime'', 0.25)]
      in \<lparr>ltvCap = (case map_of ltvCaps creditTier0 of
                      Some c \<Rightarrow> if c = 0 then 120 else c | None \<Rightarrow> 120),
          mandatoryVsc = (vehicleMileage0 > HIGH_MILEAGE_THRESHOLD),
          mandatoryGap = (ltvPercent0 > HIGH_LTV_THRESHOLD),
          maxPaymentToIncome = map_of ptiLimits creditTier0\<rparr>)"


section \<open>The shipped lender configurations (\<open>shared/lenders.ts\<close>)\<close>

definition lender_westlake :: LenderConfig where
  "lender_westlake =
     \<lparr>lc_id = ''westlake'',
      name = ''Westlake Financial'',
      active = True,
      allowedTerms = [36, 48, 60, 72],
      minAmountFinanced = 5000,
      maxAmountFinanced = 45000,
      maxBackendTotal = 3500,
      maxBackendPercentOfAmount = 25,
      maxVehicleAgeYears = 20,
      maxMiles = 180000,
      lenderFeePercent = 3,
      pricingGrid =
        [\<lparr>creditTier = deep_subprime, minApr = 22, maxApr = 27, minDownPct = 0.1,
          baseAdvancePercent = 115, maxAdvancePercent = 145, maxLtvPercent = 145\<rparr>,
         \<lparr>creditTier = subprime, minApr = 18, maxApr = 23, minDownPct = 0.1,
          baseAdvancePercent = 115, maxAdvancePercent = 140, maxLtvPercent = 140\<rparr>,
         \<lparr>creditTier = near_prime, minApr = 12, maxApr = 18, minDownPct = 0.05,
          baseAdvancePercent = 110, maxAdvancePercent = 130, maxLtvPercent = 130\<rparr>,
         \<lparr>creditTier = prime, minApr = 8, maxApr = 12, minDownPct = 0,
          baseAdvancePercent = 105, maxAdvancePercent = 120, maxLtvPercent = 120\<rparr>],
      vehicleRestrictions =
        \<lparr>maxAge = 20, maxMileage = 180000, excludedMakes = [''Daewoo'', ''Ferrari'']\<rparr>,
      vehiclePreferences =
        [\<lparr>prefMake = ''Toyota'', multiplier = 1.03, reason = Some ''Preferred Make Bonus'',
          yearRange = None\<rparr>,
         \<lparr>prefMake = ''Honda'', multiplier = 1.08, reason = Some ''Preferred Make Bonus'',
          yearRange = None\<rparr>,
         \<lparr>prefMake = ''Subaru'', multiplier = 1.05, reason = Some ''Reliability Bonus'',
          yearRange = None\<rparr>,
         \<lparr>prefMake = ''Lexus'', multiplier = 1.08, reason = Some ''Luxury Preferred'',
          yearRange = None\<rparr>,
         \<lparr>prefMake = ''Acura'', multiplier = 1.06, reason = Some ''Luxury Preferred'',
          yearRange = None\<rparr>,
         \<lparr>prefMake = ''Kia'', multiplier = 0.90, reason = Some ''Theft Risk Penalty'',
          yearRange = Some \<lparr>yearStart = 2011, yearEnd = 2021\<rparr>\<rparr>,
         \<lparr>prefMake = ''Hyundai'', multiplier = 0.90, reason = Some ''Theft Risk Penalty'',
          yearRange = Some \<lparr>yearStart = 2011, yearEnd = 2021\<rparr>\<rparr>,
         \<lparr>prefMake = ''Nissan'', multiplier = 0.88, reason = Some ''CVT Risk'',
          yearRange = None\<rparr>,
         \<lparr>prefMake = ''Dodge'', multiplier = 0.85, reason = Some ''Depreciation Risk'',
          yearRange = None\<rparr>,
         \<lparr>prefMake = ''Jeep'', multiplier = 0.88, reason = Some ''Reliability Risk'',
          yearRange = None\<rparr>,
         \<lparr>prefMake = ''Ford'', multiplier = 0.85, reason = Some ''Focus/Fiesta Transmission Risk'',
          yearRange = Some \<lparr>yearStart = 2012, yearEnd = 2018\<rparr>\<rparr>,
         \<lparr>prefMake = ''Chevrolet'', multiplier = 0.90, reason = Some ''Cruze Risk'',
          yearRange = None\<rparr>,
         \<lparr>prefMake = ''BMW'', multiplier = 0.85, reason = Some ''Luxury Maintenance Risk'',
          yearRange = None\<rparr>,
         \<lparr>prefMake = ''Mercedes'', multiplier = 0.85, reason = Some ''Luxury Maintenance Risk'',
          yearRange = None\<rparr>],
      validateDeal =
        (\<lambda>deal amountFinanced0.
           (let reasons0 =
                  (if amountFinanced0 < 5000 then [''Below Westlake minimum amount financed ($5,000)''] else [])
                  @ (if amountFinanced0 > 45000 then [''Above Westlake maximum amount financed ($45,000)''] else [])
                  @ (if downPayment deal < vehiclePrice deal * 0.05 then [''Down payment below 5% minimum for Westlake''] else [])
            in \<lparr>isValid = (length reasons0 = 0), dcr_reasons = reasons0\<rparr>))\<rparr>"

definition lender_western_funding :: LenderConfig where
  "lender_western_funding =
     \<lparr>lc_id = ''western_funding'',
      name = ''Western Funding'',
      active = True,
      allowedTerms = [48, 60, 72, 84],
      minAmountFinanced = 4000,
      maxAmountFinanced = 40000,
      maxBackendTotal = 4000,
      maxBackendPercentOfAmount = 30,
      maxVehicleAgeYears = 15,
      maxMiles = 180000,
      lenderFeePercent = 2.5,
      pricingGrid =
        [\<lparr>creditTier = deep_subprime, minApr = 24, maxApr = 29, minDownPct = 0.08,
          baseAdvancePercent = 120, maxAdvancePercent = 150, maxLtvPercent = 150\<rparr>,
         \<lparr>creditTier = subprime, minApr = 20, maxApr = 25, minDownPct = 0.08,
          baseAdvancePercent = 115, maxAdvancePercent = 145, maxLtvPercent = 145\<rparr>,
         \<lparr>creditTier = near_prime, minApr = 14, maxApr = 20, minDownPct = 0.05,
          baseAdvancePercent = 110, maxAdvancePercent = 135, maxLtvPercent = 135\<rparr>,
         \<lparr>creditTier = prime, minApr = 9, maxApr = 14, minDownPct = 0,
          baseAdvancePercent = 105, maxAdvancePercent = 125, maxLtvPercent = 125\<rparr>],
      vehicleRestrictions =
        \<lparr>maxAge = 15, maxMileage = 180000, excludedMakes = [''Land Rover'', ''Jaguar'', ''Saab'', ''Suzuki'']\<rparr>,
      vehiclePreferences =
        [\<lparr>prefMake = ''Toyota'', multiplier = 1.06, reason = Some ''Preferred Make Bonus'',
          yearRange = None\<rparr>,
         \<lparr>prefMake = ''Honda'', multiplier = 1.05, reason = Some ''Preferred Make Bonus'',
          yearRange = None\<rparr>,
         \<lparr>prefMake = ''Subaru'', multiplier = 1.04, reason = Some ''Preferred Make Bonus'',
          yearRange = None\<rparr>,
         \<lparr>prefMake = ''Lexus'', multiplier = 1.06, reason = Some ''Luxury Preferred Make'',
          yearRange = None\<rparr>,
         \<lparr>prefMake = ''Kia'', multiplier = 0.88, reason = Some ''High Theft Risk Penalty'',
          yearRange = Some \<lparr>yearStart = 2011, yearEnd = 2021\<rparr>\<rparr>,
         \<lparr>prefMake = ''Hyundai'', multiplier = 0.88, reason = Some ''High Theft Risk Penalty'',
          yearRange = Some \<lparr>yearStart = 2011, yearEnd = 2021\<rparr>\<rparr>,
         \<lparr>prefMake = ''Nissan'', multiplier = 0.90, reason = Some ''CVT Reliability Risk'',
          yearRange = None\<rparr>,
         \<lparr>prefMake = ''Dodge'', multiplier = 0.90, reason = Some ''High Depreciation Risk'',
          yearRange = None\<rparr>,
         \<lparr>prefMake = ''Chrysler'', multiplier = 0.88, reason = Some ''Reliability Risk'',
          yearRange = None\<rparr>],
      validateDeal =
        (\<lambda>deal amountFinanced0.
           (let reasons0 =
                  (if amountFinanced0 < 4000 then [''Below Western Funding minimum amount financed ($4,000)''] else [])
                  @ (if amountFinanced0 > 40000 then [''Above Western Funding maximum amount financed ($40,000)''] else [])
            in \<lparr>isValid = (length reasons0 = 0), dcr_reasons = reasons0\<rparr>))\<rparr>"

definition lender_uac :: LenderConfig where
  "lender_uac =
     \<lparr>lc_id = ''uac'',
      name = ''United Auto Credit'',
      active = True,
      allowedTerms = [36, 48, 60, 72],
      minAmountFinanced = 5000,
      maxAmountFinanced = 50000,
      maxBackendTotal = 3000,
      maxBackendPercentOfAmount = 20,
      maxVehicleAgeYears = 15,
      maxMiles = 150000,
      lenderFeePercent = 2,
      pricingGrid =
        [\<lparr>creditTier = deep_subprime, minApr = 23, maxApr = 28, minDownPct = 0.1,
          baseAdvancePercent = 115, maxAdvancePercent = 140, maxLtvPercent = 140\<rparr>,
         \<lparr>creditTier = subprime, minApr = 19, maxApr = 24, minDownPct = 0.1,
          baseAdvancePercent = 112, maxAdvancePercent = 135, maxLtvPercent = 135\<rparr>,
         \<lparr>creditTier = near_prime, minApr = 14, maxApr = 20, minDownPct = 0.05,
          baseAdvancePercent = 108, maxAdvancePercent = 125, maxLtvPercent = 125\<rparr>,
         \<lparr>creditTier = prime, minApr = 9, maxApr = 14, minDownPct = 0,
          baseAdvancePercent = 105, maxAdvancePercent = 120, maxLtvPercent = 120\<rparr>],
      vehicleRestrictions =
        \<lparr>maxAge = 15, maxMileage = 150000, excludedMakes = [''Land Rover'']\<rparr>,
      vehiclePreferences =
        [\<lparr>prefMake = ''Toyota'', multiplier = 1.05, reason = Some ''Preferred Make Bonus'',
          yearRange = None\<rparr>,
         \<lparr>prefMake = ''Honda'', multiplier = 1.05, reason = Some ''Preferred Make Bonus'',
          yearRange = None\<rparr>,
         \<lparr>prefMake = ''Subaru'', multiplier = 1.08, reason = Some ''High Reliability Bonus'',
          yearRange = None\<rparr>,
         \<lparr>prefMake = ''Lexus'', multiplier = 1.10, reason = Some ''Luxury Low-Mile Bonus'',
          yearRange = None\<rparr>,
         \<lparr>prefMake = ''Acura'', multiplier = 1.10, reason = Some ''Luxury Low-Mile Bonus'',
          yearRange = None\<rparr>,
         \<lparr>prefMake = ''Mazda'', multiplier = 1.02, reason = Some ''Reliability Bonus'',
          yearRange = None\<rparr>,
         \<lparr>prefMake = ''Kia'', multiplier = 0.85, reason = Some ''Theft Risk Penalty'',
          yearRange = Some \<lparr>yearStart = 2011, yearEnd = 2022\<rparr>\<rparr>,
         \<lparr>prefMake = ''Hyundai'', multiplier = 0.85, reason = Some ''Theft Risk Penalty'',
          yearRange = Some \<lparr>yearStart = 2011, yearEnd = 2022\<rparr>\<rparr>,
         \<lparr>prefMake = ''Nissan'', multiplier = 0.90, reason = Some ''CVT Transmission Risk'',
          yearRange = None\<rparr>,
         \<lparr>prefMake = ''Dodge'', multiplier = 0.88, reason = Some ''Depreciation Risk'',
          yearRange = None\<rparr>,
         \<lparr>prefMake = ''Jeep'', multiplier = 0.88, reason = Some ''Reliability Risk'',
          yearRange = None\<rparr>,
         \<lparr>prefMake = ''Ford'', multiplier = 0.90, reason = Some ''Model-Specific Risk'',
          yearRange = None\<rparr>,
         \<lparr>prefMake = ''BMW'', multiplier = 0.88, reason = Some ''Luxury Maintenance Risk'',
          yearRange = None\<rparr>,
         \<lparr>prefMake = ''Mercedes'', multiplier = 0.88, reason = Some ''Luxury Maintenance Risk'',
          yearRange = None\<rparr>,
         \<lparr>prefMake = ''Audi'', multiplier = 0.85, reason = Some ''Luxury Maintenance Risk'',
          yearRange = None\<rparr>,
         \<lparr>prefMake = ''Volkswagen'', multiplier = 0.90, reason = Some ''Reliability Risk'',
          yearRange = None\<rparr>,
         \<lparr>prefMake = ''Mitsubishi'', multiplier = 0.85, reason = Some ''Depreciation Risk'',
          yearRange = None\<rparr>],
      validateDeal =
        (\<lambda>deal amountFinanced0.
           (let reasons0 =
                  (if downPayment deal < 500 then [''UAC requires at least $500 down payment''] else [])
                  @ (if amountFinanced0 < 5000 then [''Below UAC minimum amount financed ($5,000)''] else [])
                  @ (if amountFinanced0 > 50000 then [''Above UAC maximum amount financed ($50,000)''] else [])
            in \<lparr>isValid = (length reasons0 = 0), dcr_reasons = reasons0\<rparr>))\<rparr>"

definition LENDERS :: "LenderConfig list" where
  "LENDERS = [lender_westlake, lender_western_funding, lender_uac]"

definition getLenderById :: "string \<Rightarrow> LenderConfig option" where
  "getLenderById i = find (\<lambda>l. lc_id l = i) LENDERS"


section \<open>Notions used to state the properties\<close>

text \<open>
  A preference applies to a deal when the loop of \<open>isVehicleEligible\<close> takes it: the makes
  agree up to case and the year range, if there is one, contains the vehicle year.
\<close>

definition prefApplies :: "DealInput \<Rightarrow> VehiclePreference \<Rightarrow> bool" where
  "prefApplies deal pref =
     (sameMake (prefMake pref) (trim (vehicleMake deal)) \<and>
      (case yearRange pref of
         None \<Rightarrow> True
       | Some r \<Rightarrow> yearStart r \<le> vehicleYear deal \<and> vehicleYear deal \<le> yearEnd r))"

text \<open>The stricter notion: the preference has a year range, and it contains the year.\<close>

definition prefCoversByRange :: "DealInput \<Rightarrow> VehiclePreference \<Rightarrow> bool" where
  "prefCoversByRange deal pref =
     (sameMake (prefMake pref) (trim (vehicleMake deal)) \<and>
      (case yearRange pref of
         None \<Rightarrow> False
       | Some r \<Rightarrow> yearStart r \<le> vehicleYear deal \<and> vehicleYear deal \<le> yearEnd r))"

text \<open>
  The multiplier as the specification words it: the least multiplier among the preferences
  that apply, 1.0 when none does.
\<close>

definition spec_advanceMultiplier :: "DealInput \<Rightarrow> LenderConfig \<Rightarrow> rat" where
  "spec_advanceMultiplier deal lender =
     (let ms = map multiplier (filter (prefApplies deal) (vehiclePreferences lender))
      in if ms = [] then 1 else Min (set ms))"

text \<open>A Kia or Hyundai, in any letter case, of the model years 2011 to 2021.\<close>

definition theftRiskVehicle :: "DealInput \<Rightarrow> bool" where
  "theftRiskVehicle deal =
     (toLowerCase (trim (vehicleMake deal)) \<in> {''kia'', ''hyundai''} \<and>
      2011 \<le> vehicleYear deal \<and> vehicleYear deal \<le> 2021)"

text \<open>What the loop over the preferences leaves: the multiplier and the warnings.\<close>

definition preferenceScan :: "DealInput \<Rightarrow> LenderConfig \<Rightarrow> rat \<times> string list" where
  "preferenceScan deal lender =
     foldl (applyPreference deal (trim (vehicleMake deal))) (1, []) (vehiclePreferences lender)"

text \<open>
  The pool that is ranked, as the specification words it: the candidates inside the
  payment window if there are any, else all of them.
\<close>

definition spec_pool :: "DealInput \<Rightarrow> DealCandidate list \<Rightarrow> DealCandidate list" where
  "spec_pool deal cands =
     (let w = filter (\<lambda>c. targetPayment deal - paymentTolerance deal \<le> payment c \<and>
                          payment c \<le> targetPayment deal + paymentTolerance deal) cands
      in if w = [] then cands else w)"

text \<open>
  The ranking order: a higher net check first; at equal net checks, the payment nearer to
  the target first.
\<close>

definition rankedBefore :: "DealInput \<Rightarrow> DealCandidate \<Rightarrow> DealCandidate \<Rightarrow> bool" where
  "rankedBefore deal a b =
     (netCheckToDealer a > netCheckToDealer b \<or>
      (netCheckToDealer a = netCheckToDealer b \<and>
       \<bar>payment a - targetPayment deal\<bar> \<le> \<bar>payment b - targetPayment deal\<bar>))"

text \<open>
  Lenders on which no run divides by zero: every allowed term is positive and no pricing
  row has a negative APR midpoint.
\<close>

definition lendersWellFormed :: "LenderConfig list \<Rightarrow> bool" where
  "lendersWellFormed lenders =
     list_all (\<lambda>l. list_all (\<lambda>t. 0 < t) (allowedTerms l) \<and>
                    list_all (\<lambda>row. 0 \<le> minApr row + maxApr row) (pricingGrid l)) lenders"

text \<open>
  The sort key behind the comparator, under the lexicographic order on pairs: the negated
  net check, then the distance of the payment from the target.
\<close>

definition rankKey :: "DealInput \<Rightarrow> DealCandidate \<Rightarrow> rat \<times> rat" where
  "rankKey deal c = (- netCheckToDealer c, \<bar>payment c - targetPayment deal\<bar>)"


text \<open>The LTV cap per credit tier, as the table of \<open>determineBankRules\<close> is specified.\<close>

definition spec_ltvCap :: "string \<Rightarrow> rat" where
  "spec_ltvCap tier =
     (if tier = ''prime'' then 130
      else if tier = ''near_prime'' then 125
      else if tier = ''subprime'' then 120
      else if tier = ''deep_subprime'' then 115
      else 120)"

section \<open>Sample inputs\<close>

definition sampleDeal :: DealInput where
  "sampleDeal =
     \<lparr>vehicleId = ''v1'', vehicleYear = 2021, vehicleMake = ''Honda'', vehicleMileage = 45000,
      vehiclePrice = 18995, vehicleCost = 17000, taxRate = 0.09, fees = 799,
      downPayment = 3000, tradeAllowance = 5000, tradePayoff = 3000,
      backendProducts = \<lparr>gap = False, vsc = False, otherProductsTotal = 0\<rparr>,
      customerCreditTier = subprime, targetPayment = 450, paymentTolerance = 50,
      preferredTermMonths = None, monthlyIncome = None\<rparr>"

text \<open>A lender with one term, one pricing row, no restriction in reach and no preference.\<close>

definition lender_plain :: LenderConfig where
  "lender_plain =
     \<lparr>lc_id = ''plain'',
      name = ''Plain Lender'',
      active = True,
      allowedTerms = [60],
      minAmountFinanced = 0,
      maxAmountFinanced = 100000,
      maxBackendTotal = 5000,
      maxBackendPercentOfAmount = 100,
      maxVehicleAgeYears = 30,
      maxMiles = 300000,
      lenderFeePercent = 2,
      pricingGrid =
        [\<lparr>creditTier = subprime, minApr = 0, maxApr = 0, minDownPct = 0,
          baseAdvancePercent = 100, maxAdvancePercent = 120, maxLtvPercent = 1000\<rparr>],
      vehicleRestrictions = \<lparr>maxAge = 30, maxMileage = 300000, excludedMakes = []\<rparr>,
      vehiclePreferences = [],
      validateDeal = (\<lambda>deal amountFinanced0. \<lparr>isValid = True, dcr_reasons = []\<rparr>)\<rparr>"


text \<open>
  A deal whose book value is zero: a one-dollar vehicle, fifteen years old in 2025, with
  200,000 miles, financed without down payment or trade.
\<close>

definition zeroBookDeal :: DealInput where
  "zeroBookDeal =
     sampleDeal\<lparr>vehiclePrice := 1, vehicleYear := 2010, vehicleMileage := 200000,
                downPayment := 0, tradeAllowance := 0, tradePayoff := 0\<rparr>"

text \<open>A vehicle still under warranty, with no product requested.\<close>

definition newerDeal :: DealInput where
  "newerDeal = sampleDeal\<lparr>vehicleYear := 2024, vehicleMileage := 10000, vehiclePrice := 9000,
                          downPayment := 4000\<rparr>"


definition sampleCandidate :: DealCandidate where
  "sampleCandidate =
     \<lparr>lenderId = ''plain'', lenderName = ''Plain Lender'', termMonths = 60, apr = 0,
      amountFinanced = 12000, payment = 200, netCheckToDealer = 11000,
      dealerFrontGross = 1995, dealerBackEndGross = 0, dealerProfit = 500, totalDown = 5000,
      backendTotal = 0, ltv = 125, withinGuidelines = True, reasons = [], adjustments = [],
      hasGap = True, hasVsc = True, smartNote = [], riskAssessment = None,
      optimizationLevel = optimal, vehicleWarnings = [], dc_advanceMultiplier = 1,
      ptiPercent = None, ptiWarning = None, ptiExceedsLimit = False,
      requiredIncome = None\<rparr>"

section \<open>Auxiliary facts\<close>

lemma floor_rat_numeral [simp]:
  "\<lfloor>(numeral a :: rat) / numeral b\<rfloor> = numeral a div numeral b"
  using floor_divide_of_int_eq [of "numeral a" "numeral b", where ?'a = rat] by simp

lemma floor_rat_neg_numeral [simp]:
  "\<lfloor>- ((numeral a :: rat) / numeral b)\<rfloor> = - numeral a div numeral b"
  using floor_divide_of_int_eq [of "- numeral a" "numeral b", where ?'a = rat] by simp

lemma jsRound_nonneg: "0 \<le> x \<Longrightarrow> 0 \<le> jsRound x"
  by (simp add: jsRound_def)

lemma jsRound_of_int: "jsRound (of_int n) = of_int n"
  by (simp add: jsRound_def) linarith

section \<open>Valuation and amount financed\<close>

lemma ageFactor_lookup:
  assumes "0 \<le> a"
  shows "(case map_of DEPRECIATION_SCHEDULE (min a 10) of Some f \<Rightarrow> f | None \<Rightarrow> 0.35)
         = spec_ageFactor a"
proof -
  from assms have "a = 0 \<or> a = 1 \<or> a = 2 \<or> a = 3 \<or> a = 4 \<or> a = 5 \<or> a = 6 \<or> a = 7
      \<or> a = 8 \<or> a = 9 \<or> 10 \<le> a"
    by arith
  then show ?thesis
    by (elim disjE) (simp_all add: DEPRECIATION_SCHEDULE_def spec_ageFactor_def min_def)
qed

lemma mileageFactor_lookup:
  "(case find (\<lambda>b. m \<le> maxMiles_b b) MILEAGE_DEPRECIATION_BRACKETS of
      Some b \<Rightarrow> factor b | None \<Rightarrow> 0.70) = spec_mileageFactor m"
  by (simp add: MILEAGE_DEPRECIATION_BRACKETS_def spec_mileageFactor_def)

lemma spec_ageFactor_pos: "0 \<le> a \<Longrightarrow> 0 < spec_ageFactor a"
proof -
  assume "0 \<le> a"
  then have "a = 0 \<or> a = 1 \<or> a = 2 \<or> a = 3 \<or> a = 4 \<or> a = 5 \<or> a = 6 \<or> a = 7
      \<or> a = 8 \<or> a = 9 \<or> 10 \<le> a"
    by arith
  then show ?thesis
    by (elim disjE) (simp_all add: spec_ageFactor_def)
qed

lemma spec_mileageFactor_pos: "0 < spec_mileageFactor m"
  by (simp add: spec_mileageFactor_def)

lemma pow2_pos: "0 < pow2 k"
  by (simp add: pow2_def)

lemma roundQuotient_nonneg: "0 \<le> n \<Longrightarrow> 0 < d \<Longrightarrow> 0 \<le> roundQuotient n d"
  by (simp add: roundQuotient_def Let_def pos_imp_zdiv_nonneg_iff)

lemma nearestDouble_nonneg:
  assumes "0 \<le> n" and "0 < d"
  shows "0 \<le> fst (nearestDouble n d)"
  using assms
  by (auto simp add: nearestDouble_def Let_def
        intro!: roundQuotient_nonneg mult_nonneg_nonneg mult_pos_pos pow2_pos
                less_imp_le [OF pow2_pos])

lemma toDouble_nonneg:
  assumes "0 \<le> x"
  shows "0 \<le> fst (toDouble x)"
proof -
  obtain n d where q: "quotient_of x = (n, d)"
    by (cases "quotient_of x")
  then have d: "0 < d" and x: "x = of_int n / of_int d"
    using quotient_of_denom_pos [of x n d] quotient_of_div [of x n d] by simp_all
  with assms have "0 \<le> n"
    by (simp add: zero_le_divide_iff)
  then show ?thesis
    using d by (simp add: toDouble_def q nearestDouble_nonneg)
qed

lemma doubleTimes_nonneg:
  assumes "0 \<le> fst x" and "0 \<le> fst y"
  shows "0 \<le> fst (doubleTimes x y)"
proof -
  have "0 \<le> fst (nearestDouble (fst x * fst y) 1)"
    using assms by (intro nearestDouble_nonneg) simp_all
  then show ?thesis
    by (simp add: doubleTimes_def split_beta)
qed

lemma doubleValue_nonneg: "0 \<le> fst x \<Longrightarrow> 0 \<le> doubleValue x"
  by (simp add: doubleValue_def)

lemma bitLength_bounds:
  "0 < n \<Longrightarrow> 1 \<le> bitLength n \<and> 2 ^ nat (bitLength n - 1) \<le> n \<and> n < 2 ^ nat (bitLength n)"
proof (induction n rule: bitLength.induct)
  case (1 n)
  show ?case
  proof (cases "n div 2 = 0")
    case True
    with 1 have "n = 1" by simp
    then show ?thesis
      by (simp add: bitLength.simps [of 1] bitLength.simps [of 0])
  next
    case False
    with 1 have pos: "0 < n div 2" by simp
    define b where "b = bitLength (n div 2)"
    from 1 pos have b: "1 \<le> b" "2 ^ nat (b - 1) \<le> n div 2" "n div 2 < 2 ^ nat b"
      by (simp_all add: b_def)
    have bl: "bitLength n = 1 + b"
      using 1(2) by (simp add: bitLength.simps [of n] b_def)
    from b(1) have nb: "nat b = Suc (nat (b - 1))" by simp
    have "2 ^ nat b \<le> 2 * (n div 2)"
      using b(2) by (simp add: nb)
    then have lo: "2 ^ nat b \<le> n" by simp
    have "n < 2 * (n div 2 + 1)" by simp
    also have "\<dots> \<le> 2 * 2 ^ nat b" using b(3) by simp
    finally have hi: "n < 2 ^ Suc (nat b)" by simp
    from b(1) have "nat (1 + b) = Suc (nat b)" by simp
    with lo hi b(1) show ?thesis
      by (simp add: bl)
  qed
qed

lemma bitLength_one: "bitLength 1 = 1"
  by (simp add: bitLength.simps [of 1] bitLength.simps [of 0])

lemma roundQuotient_one: "roundQuotient n 1 = n"
  by (simp add: roundQuotient_def)

lemma roundQuotient_dvd: "0 < d \<Longrightarrow> roundQuotient (q * d) d = q"
  by (simp add: roundQuotient_def)

lemma nearestDouble_exact:
  assumes "0 < n" and "n < 2 ^ 53"
  shows "doubleValue (nearestDouble (n * 2 ^ s) 1) = of_int (n * 2 ^ s)
       \<and> 0 < fst (nearestDouble (n * 2 ^ s) 1) \<and> fst (nearestDouble (n * 2 ^ s) 1) < 2 ^ 53"
proof -
  define N where "N = n * 2 ^ s"
  have N: "0 < N" using assms(1) by (simp add: N_def)
  from bitLength_bounds [OF N] obtain k :: nat where k: "bitLength N = int k + 1"
    by (metis add.commute nat_0_le diff_add_cancel diff_ge_0_iff_ge)
  with bitLength_bounds [OF N] have lo: "2 ^ k \<le> N" and hi: "N < 2 ^ Suc k"
    by (simp_all add: nat_add_distrib)
  have ex: "(if 1 * pow2 (int k) \<le> \<bar>N\<bar> * pow2 (- int k) then int k else int k - 1) = int k"
    using lo N by (simp add: pow2_def)
  show ?thesis
  proof (cases "k \<le> 52")
    case True
    define j where "j = 52 - k"
    have e: "int k - 52 = - int j" "nat (52 - int k) = j" "nat (int k - 52) = 0"
      using True by (simp_all add: j_def)
    have nd: "nearestDouble N 1 = (N * 2 ^ j, - int j)"
      using N lo by (simp add: nearestDouble_def Let_def bitLength_one k e pow2_def roundQuotient_one)
    have "N * 2 ^ j < 2 ^ Suc k * 2 ^ j"
      using hi by simp
    also have "\<dots> = 2 ^ 53"
      using True by (simp add: j_def flip: power_add)
    finally have "N * 2 ^ j < 2 ^ 53" .
    then show ?thesis
      using N by (simp add: nd N_def [symmetric] doubleValue_def power_int_minus)
  next
    case False
    define j where "j = k - 52"
    have e: "int k - 52 = int j" "nat (52 - int k) = 0"
      using False by (simp_all add: j_def)
    have j: "0 < j" using False by (simp add: j_def)
    have "(2::int) ^ k \<le> n * 2 ^ s" using lo by (simp add: N_def)
    also have "\<dots> < 2 ^ 53 * 2 ^ s" using assms(2) by simp
    finally have "(2::int) ^ k < 2 ^ (53 + s)" by (simp add: power_add)
    then have "k < 53 + s" by simp
    then have "j \<le> s" by (simp add: j_def)
    then obtain q where q: "N = q * 2 ^ j"
      by (metis N_def le_add_diff_inverse mult.assoc mult.commute power_add)
    have "nearestDouble N 1 = (roundQuotient N (2 ^ j), int j)"
      using N lo by (simp add: nearestDouble_def Let_def bitLength_one k e pow2_def)
    moreover have "roundQuotient N (2 ^ j) = q"
      by (simp add: q roundQuotient_dvd)
    ultimately have nd: "nearestDouble N 1 = (q, int j)"
      by simp
    have "Suc k = 53 + j" using False by (simp add: j_def)
    then have "(2::int) ^ Suc k = 2 ^ 53 * 2 ^ j"
      by (simp only: power_add)
    with hi have "q * 2 ^ j < 2 ^ 53 * 2 ^ j" by (simp add: q)
    then have "q < 2 ^ 53" by simp
    moreover have "0 < q" using N by (simp add: q zero_less_mult_iff)
    moreover have "doubleValue (q, int j) = of_int N"
      by (simp add: doubleValue_def q)
    ultimately show ?thesis
      unfolding N_def [symmetric] nd by simp
  qed
qed


text \<open>A non-negative integer below \<open>2 ^ 53\<close> is a double.\<close>

lemma toDouble_of_int:
  assumes "0 < n" and "n < 2 ^ 53"
  shows "doubleValue (toDouble (of_int n)) = of_int n
       \<and> 0 < fst (toDouble (of_int n)) \<and> fst (toDouble (of_int n)) < 2 ^ 53"
  using nearestDouble_exact [OF assms, of 0] by (simp add: toDouble_def)

lemma toDouble_one: "toDouble 1 = (2 ^ 52, - 52)"
  by code_simp

text \<open>Multiplying a double by 1 returns it.\<close>

lemma doubleTimes_one:
  assumes "0 < fst x" and "fst x < 2 ^ 53"
  shows "doubleValue (doubleTimes x (toDouble 1)) = doubleValue x
       \<and> 0 < fst (doubleTimes x (toDouble 1)) \<and> fst (doubleTimes x (toDouble 1)) < 2 ^ 53"
proof -
  obtain m e where r: "nearestDouble (fst x * 4503599627370496) 1 = (m, e)"
    by (cases "nearestDouble (fst x * 4503599627370496) 1")
  from nearestDouble_exact [OF assms, of 52] r
  have v: "of_int m * power_int 2 e = (of_int (fst x) :: rat) * 2 ^ 52" and m: "0 < m" "m < 2 ^ 53"
    by (simp_all add: doubleValue_def)
  have "(of_int m :: rat) * power_int 2 (e + snd x - 52)
          = (of_int m * power_int 2 e) * power_int 2 (snd x) / 2 ^ 52"
    by (simp add: power_int_add power_int_diff)
  also have "\<dots> = of_int (fst x) * power_int 2 (snd x)"
    by (simp only: v) simp
  finally show ?thesis
    using m by (simp add: doubleTimes_def toDouble_one r doubleValue_def)
qed

lemma toDouble_zero: "toDouble 0 = (0, 0)"
  by code_simp

lemma calculateBookValue_eq:
  "0 \<le> a \<Longrightarrow>
     calculateBookValue p a m =
       jsRound (doubleValue (doubleTimes (doubleTimes (toDouble p) (toDouble (spec_ageFactor a)))
                               (toDouble (spec_mileageFactor m))))"
  unfolding calculateBookValue_def Let_def
  by (simp only: ageFactor_lookup mileageFactor_lookup)

lemma calculateBookValue_unit:
  assumes "0 \<le> n" and "n < 2 ^ 53"
  shows "calculateBookValue (of_int n) 0 0 = of_int n"
proof (cases "n = 0")
  case True
  have "doubleTimes (doubleTimes (0, 0) (toDouble 1)) (toDouble 1) = (0, - 104)"
    by (simp add: doubleTimes_def nearestDouble_def toDouble_one)
  then show ?thesis
    using True
    by (simp add: calculateBookValue_eq spec_ageFactor_def spec_mileageFactor_def toDouble_zero
          doubleValue_def jsRound_of_int [of 0, simplified])
next
  case False
  with assms have n: "0 < n" by simp
  let ?x1 = "toDouble (of_int n)"
  let ?x2 = "doubleTimes ?x1 (toDouble 1)"
  let ?x3 = "doubleTimes ?x2 (toDouble 1)"
  from toDouble_of_int [OF n assms(2)]
  have x1: "doubleValue ?x1 = of_int n" "0 < fst ?x1" "fst ?x1 < 2 ^ 53"
    by simp_all
  from doubleTimes_one [OF x1(2) x1(3)] x1(1)
  have x2: "doubleValue ?x2 = of_int n" "0 < fst ?x2" "fst ?x2 < 2 ^ 53"
    by simp_all
  from doubleTimes_one [OF x2(2) x2(3)] x2(1)
  have x3: "doubleValue ?x3 = of_int n"
    by simp
  have "calculateBookValue (of_int n) 0 0 = jsRound (doubleValue ?x3)"
    by (simp add: calculateBookValue_eq spec_ageFactor_def spec_mileageFactor_def)
  then show ?thesis
    by (simp only: x3 jsRound_of_int)
qed

text \<open>
  Claim C7. For a non-negative retail price, age and mileage, \<open>calculateBookValue\<close> returns
  the rounded product of the price, the age factor of the schedule (ages from 10 on share
  the factor of age 10, so the result equals the one at age 10) and the mileage factor of
  the brackets (0.70 above the last bracket); the product is the one the code takes, of
  doubles and from left to right. The result is never negative, and at age 0 and mileage
  0 an integral price below \<open>2 ^ 53\<close> is returned unchanged.
\<close>

theorem calculateBookValue_rule:
  assumes "0 \<le> p" and "0 \<le> a" and "0 \<le> m"
  shows "calculateBookValue p a m =
           jsRound (doubleValue (doubleTimes (doubleTimes (toDouble p) (toDouble (spec_ageFactor a)))
                                   (toDouble (spec_mileageFactor m))))
       \<and> (10 \<le> a \<longrightarrow> calculateBookValue p a m = calculateBookValue p 10 m)
       \<and> (180000 < m \<longrightarrow>
            calculateBookValue p a m =
              jsRound (doubleValue (doubleTimes (doubleTimes (toDouble p) (toDouble (spec_ageFactor a)))
                                      (toDouble 0.70))))
       \<and> 0 \<le> calculateBookValue p a m
       \<and> (p = of_int \<lfloor>p\<rfloor> \<and> p < 2 ^ 53 \<longrightarrow> calculateBookValue p 0 0 = p)"
proof (intro conjI impI)
  show "calculateBookValue p a m =
          jsRound (doubleValue (doubleTimes (doubleTimes (toDouble p) (toDouble (spec_ageFactor a)))
                                  (toDouble (spec_mileageFactor m))))"
    using assms(2) by (rule calculateBookValue_eq)
  show "calculateBookValue p a m = calculateBookValue p 10 m" if "10 \<le> a"
    using that by (simp add: calculateBookValue_eq spec_ageFactor_def)
  show "calculateBookValue p a m =
          jsRound (doubleValue (doubleTimes (doubleTimes (toDouble p) (toDouble (spec_ageFactor a)))
                                  (toDouble 0.70)))"
    if "180000 < m"
    using that assms(2) by (simp add: calculateBookValue_eq spec_mileageFactor_def)
  show "0 \<le> calculateBookValue p a m"
  proof -
    have "0 \<le> fst (doubleTimes (doubleTimes (toDouble p) (toDouble (spec_ageFactor a)))
                      (toDouble (spec_mileageFactor m)))"
      using assms spec_ageFactor_pos [of a] spec_mileageFactor_pos [of m]
      by (intro doubleTimes_nonneg toDouble_nonneg) simp_all
    then show ?thesis
      using assms(2) by (simp add: calculateBookValue_eq jsRound_nonneg doubleValue_nonneg)
  qed
  show "calculateBookValue p 0 0 = p" if h: "p = of_int \<lfloor>p\<rfloor> \<and> p < 2 ^ 53"
  proof -
    from h have "\<lfloor>p\<rfloor> < 2 ^ 53"
      by (simp add: floor_less_iff)
    moreover from assms(1) have "0 \<le> \<lfloor>p\<rfloor>" by simp
    ultimately have "calculateBookValue (of_int \<lfloor>p\<rfloor>) 0 0 = of_int \<lfloor>p\<rfloor>"
      by (intro calculateBookValue_unit)
    with h show ?thesis by simp
  qed
qed

theorem calculateBookValue_rule_witness:
  "calculateBookValue 18995 6 45000 = 9925
   \<and> calculateBookValue 18995 14 200000 = calculateBookValue 18995 10 200000
   \<and> calculateBookValue 18995 14 200000 = 5053
   \<and> calculateBookValue 18995 0 0 = 18995
   \<and> calculateBookValue 3750 15 190000 = 997
   \<and> calculateBookValue 12500 1 200000 = 7437"
proof -
  have v: "calculateBookValue 18995 6 45000 = 9925"
    "calculateBookValue 18995 10 200000 = 5053"
    "calculateBookValue 3750 15 190000 = 997"
    "calculateBookValue 12500 1 200000 = 7437"
    by code_simp+
  show ?thesis
    using calculateBookValue_rule [of 18995 14 200000] calculateBookValue_rule [of 18995 0 0] v
    by simp
qed

text \<open>
  Claim C9. Whatever the signs of the price, tax rate, fees, backend total, down payment,
  trade allowance and trade payoff, the amount financed is the gross amount
  (price + price \<times> tax rate + fees + backend total) less the total down
  (down payment + trade allowance - trade payoff), floored at 0; it is never negative.
\<close>

theorem computeAmountFinanced_floor:
  "computeAmountFinanced deal b =
     max ((vehiclePrice deal + vehiclePrice deal * taxRate deal + fees deal + b)
          - (downPayment deal + tradeAllowance deal - tradePayoff deal)) 0
   \<and> 0 \<le> computeAmountFinanced deal b"
  by (simp add: computeAmountFinanced_def Let_def)

section \<open>Vehicle eligibility: the advance multiplier\<close>

lemma toLowerCase_Kia: "toLowerCase ''Kia'' = ''kia''"
  by (simp add: toLowerCase_def lowerChar_def)

lemma toLowerCase_Hyundai: "toLowerCase ''Hyundai'' = ''hyundai''"
  by (simp add: toLowerCase_def lowerChar_def)

lemma isTheftRiskMake_iff:
  "list_ex (\<lambda>m. sameMake m nm) THEFT_RISK_MAKES \<longleftrightarrow> toLowerCase nm \<in> {''kia'', ''hyundai''}"
  unfolding THEFT_RISK_MAKES_def sameMake_def
  by (simp add: toLowerCase_Kia toLowerCase_Hyundai) auto

lemma theftRiskVehicle_iff:
  "theftRiskVehicle deal \<longleftrightarrow>
     list_ex (\<lambda>m. sameMake m (trim (vehicleMake deal))) THEFT_RISK_MAKES \<and>
     vehicleYear deal \<ge> THEFT_RISK_YEAR_START \<and> vehicleYear deal \<le> THEFT_RISK_YEAR_END"
  by (simp only: isTheftRiskMake_iff theftRiskVehicle_def THEFT_RISK_YEAR_START_def
        THEFT_RISK_YEAR_END_def)

lemma hasTheftPenalty_iff:
  "list_ex (\<lambda>p. sameMake (prefMake p) (trim (vehicleMake deal)) \<and>
                (case yearRange p of
                   None \<Rightarrow> False
                 | Some r \<Rightarrow> vehicleYear deal \<ge> yearStart r \<and> vehicleYear deal \<le> yearEnd r)) ps
   \<longleftrightarrow> list_ex (prefCoversByRange deal) ps"
  by (simp add: prefCoversByRange_def [abs_def])

text \<open>The two result fields that depend on the preferences, in terms of the scan.\<close>

lemma isVehicleEligible_scan:
  "(advanceMultiplier (isVehicleEligible loc y deal lender), warnings (isVehicleEligible loc y deal lender)) =
     (if theftRiskVehicle deal \<and> \<not> list_ex (prefCoversByRange deal) (vehiclePreferences lender)
         \<and> fst (preferenceScan deal lender) = 1
      then (0.90, snd (preferenceScan deal lender)
                  @ [theftWarning (trim (vehicleMake deal)) (vehicleYear deal)])
      else preferenceScan deal lender)"
  unfolding isVehicleEligible_def Let_def preferenceScan_def [symmetric]
    hasTheftPenalty_iff theftRiskVehicle_iff
  by simp

lemma applyPreference_fst:
  "fst (applyPreference deal (trim (vehicleMake deal)) st p) =
     (if prefApplies deal p then min (fst st) (multiplier p) else fst st)"
  by (cases "yearRange p") (simp_all add: applyPreference_def prefApplies_def Let_def)

lemma scan_fst:
  "fst (foldl (applyPreference deal (trim (vehicleMake deal))) st ps) =
     foldl min (fst st) (map multiplier (filter (prefApplies deal) ps))"
  by (induction ps arbitrary: st) (simp_all add: applyPreference_fst)

lemma foldl_min_Min:
  "foldl min (a::rat) ms = (if ms = [] then a else min a (Min (set ms)))"
proof (induction ms arbitrary: a)
  case Nil
  show ?case by simp
next
  case (Cons m ms)
  show ?case
  proof (cases "ms = []")
    case True
    then show ?thesis by simp
  next
    case False
    then have "Min (set (m # ms)) = min m (Min (set ms))"
      by simp
    with False Cons.IH [of "min a m"] show ?thesis
      by (simp add: min.assoc)
  qed
qed

lemma preferenceScan_fst:
  "fst (preferenceScan deal lender) = min 1 (spec_advanceMultiplier deal lender)"
  unfolding preferenceScan_def spec_advanceMultiplier_def Let_def
  by (simp add: scan_fst foldl_min_Min)

text \<open>
  Claim C1: the returned multiplier is the least multiplier among the applying
  preferences, 1.0 when none applies, and in particular a single applying preference with
  a multiplier above 1.0, such as 1.08, is returned as it is. The code never returns a
  bonus: the running minimum starts from 1.0, so the result is the lesser of 1.0 and the
  least applying multiplier. At the shipped Westlake configuration the one preference that
  applies to a Honda is the 1.08 bonus; the check returns the multiplier 1.0 beside the
  warning that announces an advance higher by 8 percent.
\<close>

theorem bonus_multiplier_not_returned:
  "filter (prefApplies sampleDeal) (vehiclePreferences lender_westlake)
     = [\<lparr>prefMake = ''Honda'', multiplier = 1.08, reason = Some ''Preferred Make Bonus'',
         yearRange = None\<rparr>]
   \<and> spec_advanceMultiplier sampleDeal lender_westlake = 1.08
   \<and> isVehicleEligible toLocaleString 2025 sampleDeal lender_westlake
     = \<lparr>isEligible = True, ve_reasons = [], advanceMultiplier = 1,
        warnings = [''Preferred Make Bonus: Honda (+8% advance)'']\<rparr>"
  by code_simp

lemma trim_plain_makes:
  "trim ''Honda'' = ''Honda''" "trim ''Toyota'' = ''Toyota''" "trim ''Lexus'' = ''Lexus''"
  by (simp_all add: trim_def isSpace_def)

lemma toFixed_small: "toFixed 0 8 = ''8''" "toFixed 0 3 = ''3''"
  by code_simp+

lemma westlake_bonus_scan:
  "preferenceScan (deal\<lparr>vehicleMake := ''Honda''\<rparr>) lender_westlake
     = (1, [''Preferred Make Bonus: Honda (+8% advance)''])"
  "preferenceScan (deal\<lparr>vehicleMake := ''Toyota''\<rparr>) lender_westlake
     = (1, [''Preferred Make Bonus: Toyota (+3% advance)''])"
  "preferenceScan (deal\<lparr>vehicleMake := ''Lexus''\<rparr>) lender_westlake
     = (1, [''Luxury Preferred: Lexus (+8% advance)''])"
  by (simp_all add: preferenceScan_def lender_westlake_def applyPreference_def sameMake_def
      trim_plain_makes toLowerCase_def lowerChar_def reasonOr_def toFixed_small)

lemma plain_makes_no_theft_risk:
  "\<not> theftRiskVehicle (deal\<lparr>vehicleMake := ''Honda''\<rparr>)"
  "\<not> theftRiskVehicle (deal\<lparr>vehicleMake := ''Toyota''\<rparr>)"
  "\<not> theftRiskVehicle (deal\<lparr>vehicleMake := ''Lexus''\<rparr>)"
  by (simp_all add: theftRiskVehicle_def trim_plain_makes toLowerCase_def lowerChar_def)

text \<open>
  Claim C10. The advance multiplier that the eligibility check returns is at most 1.0 for
  every deal and lender: it starts at 1.0 and is only ever lowered. A bonus preference
  never raises it, though its warning is still emitted: at the shipped Westlake
  configuration a Honda, a Toyota and a Lexus each get the multiplier 1.0 together with
  the warning that announces the bonus.
\<close>

theorem advanceMultiplier_at_most_one:
  "advanceMultiplier (isVehicleEligible loc y deal lender) \<le> 1
   \<and> (advanceMultiplier (isVehicleEligible loc y (deal\<lparr>vehicleMake := ''Honda''\<rparr>) lender_westlake),
      warnings (isVehicleEligible loc y (deal\<lparr>vehicleMake := ''Honda''\<rparr>) lender_westlake))
     = (1, [''Preferred Make Bonus: Honda (+8% advance)''])
   \<and> (advanceMultiplier (isVehicleEligible loc y (deal\<lparr>vehicleMake := ''Toyota''\<rparr>) lender_westlake),
      warnings (isVehicleEligible loc y (deal\<lparr>vehicleMake := ''Toyota''\<rparr>) lender_westlake))
     = (1, [''Preferred Make Bonus: Toyota (+3% advance)''])
   \<and> (advanceMultiplier (isVehicleEligible loc y (deal\<lparr>vehicleMake := ''Lexus''\<rparr>) lender_westlake),
      warnings (isVehicleEligible loc y (deal\<lparr>vehicleMake := ''Lexus''\<rparr>) lender_westlake))
     = (1, [''Luxury Preferred: Lexus (+8% advance)''])"
proof (intro conjI)
  have "advanceMultiplier (isVehicleEligible loc y deal lender) =
          fst (advanceMultiplier (isVehicleEligible loc y deal lender),
               warnings (isVehicleEligible loc y deal lender))"
    by simp
  also have "\<dots> \<le> 1"
    by (simp only: isVehicleEligible_scan) (simp add: preferenceScan_fst split: if_splits)
  finally show "advanceMultiplier (isVehicleEligible loc y deal lender) \<le> 1" .
qed (simp_all only: isVehicleEligible_scan westlake_bonus_scan plain_makes_no_theft_risk
       simp_thms if_False)

theorem advanceMultiplier_at_most_one_witness:
  "advanceMultiplier (isVehicleEligible toLocaleString 2025 sampleDeal lender_westlake) \<le> 1
   \<and> warnings (isVehicleEligible toLocaleString 2025 sampleDeal lender_westlake)
     = [''Preferred Make Bonus: Honda (+8% advance)'']"
proof -
  have "sampleDeal\<lparr>vehicleMake := ''Honda''\<rparr> = sampleDeal"
    by (simp add: sampleDeal_def)
  then show ?thesis
    using advanceMultiplier_at_most_one [of toLocaleString 2025 sampleDeal lender_westlake] by simp
qed


section \<open>Vehicle eligibility: the default theft-risk rule\<close>

lemma applyPreference_skip:
  "\<not> prefApplies deal p \<Longrightarrow> applyPreference deal (trim (vehicleMake deal)) st p = st"
  by (cases "yearRange p") (auto simp add: applyPreference_def prefApplies_def Let_def)

lemma scan_skip_all:
  "\<not> list_ex (prefApplies deal) ps \<Longrightarrow>
     foldl (applyPreference deal (trim (vehicleMake deal))) st ps = st"
  by (induction ps arbitrary: st) (simp_all add: applyPreference_skip)

lemma preferenceScan_none:
  "\<not> list_ex (prefApplies deal) (vehiclePreferences lender) \<Longrightarrow>
     preferenceScan deal lender = (1, [])"
  by (simp add: preferenceScan_def scan_skip_all)

lemma prefCoversByRange_applies: "prefCoversByRange deal p \<Longrightarrow> prefApplies deal p"
  by (cases "yearRange p") (simp_all add: prefCoversByRange_def prefApplies_def)

lemma spec_advanceMultiplier_le:
  assumes "p \<in> set (vehiclePreferences lender)" and "prefApplies deal p"
  shows "spec_advanceMultiplier deal lender \<le> multiplier p"
proof -
  let ?ms = "map multiplier (filter (prefApplies deal) (vehiclePreferences lender))"
  from assms have "multiplier p \<in> set ?ms" by auto
  then have "?ms \<noteq> []" and "Min (set ?ms) \<le> multiplier p"
    by (auto intro: Min_le simp add: filter_empty_conv)
  then show ?thesis
    by (simp add: spec_advanceMultiplier_def Let_def)
qed

text \<open>
  Claim C4, as stated: a Kia or Hyundai of 2011 to 2021 gets exactly 0.90 and exactly one
  theft-risk warning where no preference covers its make and year, and the 0.90 penalty is
  not applied where one does. Neither way of reading "covers" makes both halves true. If a
  preference without a year range covers every year, the second half fails: with the
  neutral preference (Kia, 1.0, no range) the rule still fires and 0.90 is returned. If
  only a preference with a year range can cover, the first half fails: with the preference
  (Kia, 0.88, no range) nothing covers, yet 0.88 is returned and no theft-risk warning.
\<close>

theorem theft_rule_counterexample:
  "prefApplies (sampleDeal\<lparr>vehicleMake := ''Kia'', vehicleYear := 2015\<rparr>)
      \<lparr>prefMake = ''Kia'', multiplier = 1, reason = None, yearRange = None\<rparr>
   \<and> isVehicleEligible toLocaleString 2025 (sampleDeal\<lparr>vehicleMake := ''Kia'', vehicleYear := 2015\<rparr>)
       (lender_plain\<lparr>vehiclePreferences :=
          [\<lparr>prefMake = ''Kia'', multiplier = 1, reason = None, yearRange = None\<rparr>]\<rparr>)
     = \<lparr>isEligible = True, ve_reasons = [], advanceMultiplier = 0.90,
        warnings = [''Theft Risk: Kia 2015 (2011-2021 models lack immobilizers)'']\<rparr>
   \<and> \<not> prefCoversByRange (sampleDeal\<lparr>vehicleMake := ''Kia'', vehicleYear := 2015\<rparr>)
      \<lparr>prefMake = ''Kia'', multiplier = 0.88, reason = None, yearRange = None\<rparr>
   \<and> isVehicleEligible toLocaleString 2025 (sampleDeal\<lparr>vehicleMake := ''Kia'', vehicleYear := 2015\<rparr>)
       (lender_plain\<lparr>vehiclePreferences :=
          [\<lparr>prefMake = ''Kia'', multiplier = 0.88, reason = None, yearRange = None\<rparr>]\<rparr>)
     = \<lparr>isEligible = True, ve_reasons = [], advanceMultiplier = 0.88,
        warnings = [''Risk Adjustment: Kia 2015 (-12% advance)'']\<rparr>"
  by code_simp

text \<open>
  Claim C4, amended. For a Kia or Hyundai (in any letter case) of the model years 2011 to
  2021: when no preference of the lender applies (make equal up to case, year range absent
  or containing the year), the check returns exactly 0.90 and exactly one warning, the
  theft-risk warning; when a preference with a year range containing the year covers the
  make, or an applying preference has a multiplier below 1.0, the theft-risk rule adds
  nothing: multiplier and warnings are those of the preference scan.
\<close>

theorem theft_rule:
  assumes "theftRiskVehicle deal"
  shows "(\<not> list_ex (prefApplies deal) (vehiclePreferences lender) \<longrightarrow>
            advanceMultiplier (isVehicleEligible loc y deal lender) = 0.90 \<and>
            warnings (isVehicleEligible loc y deal lender)
              = [theftWarning (trim (vehicleMake deal)) (vehicleYear deal)])
       \<and> (list_ex (prefCoversByRange deal) (vehiclePreferences lender) \<or>
          list_ex (\<lambda>p. prefApplies deal p \<and> multiplier p < 1) (vehiclePreferences lender) \<longrightarrow>
            (advanceMultiplier (isVehicleEligible loc y deal lender),
             warnings (isVehicleEligible loc y deal lender)) = preferenceScan deal lender)"
proof (intro conjI impI)
  assume none: "\<not> list_ex (prefApplies deal) (vehiclePreferences lender)"
  then have "\<not> list_ex (prefCoversByRange deal) (vehiclePreferences lender)"
    by (auto simp add: list_ex_iff dest: prefCoversByRange_applies)
  with assms none
  have "(advanceMultiplier (isVehicleEligible loc y deal lender),
         warnings (isVehicleEligible loc y deal lender))
        = (0.90, [theftWarning (trim (vehicleMake deal)) (vehicleYear deal)])"
    by (simp add: isVehicleEligible_scan preferenceScan_none)
  then show "advanceMultiplier (isVehicleEligible loc y deal lender) = 0.90"
    and "warnings (isVehicleEligible loc y deal lender)
              = [theftWarning (trim (vehicleMake deal)) (vehicleYear deal)]"
    by simp_all
next
  assume "list_ex (prefCoversByRange deal) (vehiclePreferences lender) \<or>
          list_ex (\<lambda>p. prefApplies deal p \<and> multiplier p < 1) (vehiclePreferences lender)"
  then show "(advanceMultiplier (isVehicleEligible loc y deal lender),
              warnings (isVehicleEligible loc y deal lender)) = preferenceScan deal lender"
  proof
    assume "list_ex (prefCoversByRange deal) (vehiclePreferences lender)"
    then show ?thesis by (simp add: isVehicleEligible_scan)
  next
    assume "list_ex (\<lambda>p. prefApplies deal p \<and> multiplier p < 1) (vehiclePreferences lender)"
    then obtain p where "p \<in> set (vehiclePreferences lender)" "prefApplies deal p" "multiplier p < 1"
      by (auto simp add: list_ex_iff)
    then have "spec_advanceMultiplier deal lender < 1"
      using spec_advanceMultiplier_le [of p lender deal] by simp
    then have "fst (preferenceScan deal lender) \<noteq> 1"
      by (simp add: preferenceScan_fst)
    then show ?thesis by (simp add: isVehicleEligible_scan)
  qed
qed

theorem theft_rule_witness:
  "advanceMultiplier (isVehicleEligible toLocaleString 2025
      (sampleDeal\<lparr>vehicleMake := ''hyundai'', vehicleYear := 2015\<rparr>) lender_plain) = 0.90
   \<and> warnings (isVehicleEligible toLocaleString 2025
      (sampleDeal\<lparr>vehicleMake := ''hyundai'', vehicleYear := 2015\<rparr>) lender_plain)
       = [''Theft Risk: hyundai 2015 (2011-2021 models lack immobilizers)'']
   \<and> (advanceMultiplier (isVehicleEligible toLocaleString 2025
         (sampleDeal\<lparr>vehicleMake := ''Kia'', vehicleYear := 2015\<rparr>) lender_western_funding),
      warnings (isVehicleEligible toLocaleString 2025
         (sampleDeal\<lparr>vehicleMake := ''Kia'', vehicleYear := 2015\<rparr>) lender_western_funding))
     = (0.88, [''High Theft Risk Penalty: Kia 2015 (-12% advance)''])"
proof -
  let ?h = "sampleDeal\<lparr>vehicleMake := ''hyundai'', vehicleYear := 2015\<rparr>"
  let ?k = "sampleDeal\<lparr>vehicleMake := ''Kia'', vehicleYear := 2015\<rparr>"
  have h1: "theftRiskVehicle ?h" and h2: "theftRiskVehicle ?k"
    by code_simp+
  have n: "\<not> list_ex (prefApplies ?h) (vehiclePreferences lender_plain)"
    by code_simp
  have c: "list_ex (prefCoversByRange ?k) (vehiclePreferences lender_western_funding)"
    by code_simp
  have t: "theftWarning (trim (vehicleMake ?h)) (vehicleYear ?h)
           = ''Theft Risk: hyundai 2015 (2011-2021 models lack immobilizers)''"
    by code_simp
  have s: "preferenceScan ?k lender_western_funding
           = (0.88, [''High Theft Risk Penalty: Kia 2015 (-12% advance)''])"
    by code_simp
  show ?thesis
    using theft_rule [OF h1, of lender_plain toLocaleString 2025]
      theft_rule [OF h2, of lender_western_funding toLocaleString 2025]
      n c t s
    by simp
qed

section \<open>LTV at a zero book value\<close>

text \<open>
  Claim C2: where the book value is not positive, no LTV computation divides by it and the
  LTV is the sentinel 999 in the risk assessment, in the LTV filter of the search loop and
  in the net-check estimation. The division is guarded in all three places, and two of
  them use 999; \<open>assessRisk\<close> uses 0. For the deal below, whose book value rounds to 0 and
  whose amount financed is 800.09, the risk assessment reports an LTV of 0, not upside
  down and no GAP recommended, while the net-check estimation reports 999; every
  candidate of a run against a lender with an LTV cap of 1000 carries the LTV 999
  beside a risk assessment whose LTV is 0, and a cap of 998 rejects them all.
\<close>

theorem zero_book_value_ltv:
  "calculateBookValue (vehiclePrice zeroBookDeal) (2025 - vehicleYear zeroBookDeal)
      (vehicleMileage zeroBookDeal) = 0
   \<and> computeAmountFinanced zeroBookDeal 0 = 80009 / 100
   \<and> ltvPercent (assessRisk 2025 zeroBookDeal) = 0
   \<and> \<not> isUpsideDown (assessRisk 2025 zeroBookDeal)
   \<and> \<not> recommendGap (assessRisk 2025 zeroBookDeal)
   \<and> (case estimateNetCheckAndProfit 2025 zeroBookDeal lender_plain (hd (pricingGrid lender_plain))
              (80009 / 100) 0 1 of
         Inl e \<Rightarrow> None | Inr nc \<Rightarrow> Some (nc_ltv nc)) = Some 999
   \<and> (case runRehash toLocaleString 2025 zeroBookDeal [lender_plain] of
         Inl e \<Rightarrow> []
       | Inr r \<Rightarrow> map (\<lambda>c. (ltv c, map_option ltvPercent (riskAssessment c))) (allCandidates r))
     = replicate 6 (999, Some 0)
   \<and> (case runRehash toLocaleString 2025 zeroBookDeal
              [lender_plain\<lparr>pricingGrid :=
                 [(hd (pricingGrid lender_plain))\<lparr>maxLtvPercent := 998\<rparr>]\<rparr>] of
         Inl e \<Rightarrow> None
       | Inr r \<Rightarrow> Some (allCandidates r)) = Some []"
  by code_simp

section \<open>Backend scenarios\<close>

text \<open>
  Claim C5, as stated: the builder produces exactly three scenarios for every lender. For
  a vehicle under warranty with no service contract requested, the shipped Westlake
  configuration (active, vehicle eligible) gets two: the optimal and the stripped one.
\<close>

theorem three_scenarios_counterexample:
  "active lender_westlake
   \<and> isEligible (isVehicleEligible toLocaleString 2025 newerDeal lender_westlake)
   \<and> map label (buildSmartScenarios newerDeal (assessRisk 2025 newerDeal) lender_westlake)
     = [''Optimal Coverage'', ''No Products'']
   \<and> length (buildSmartScenarios newerDeal (assessRisk 2025 newerDeal) lender_westlake) = 2"
  by code_simp

text \<open>
  Claim C5, amended. The builder produces the optimal scenario first and the all-stripped
  scenario last, and between them the VSC-stripped scenario exactly when the optimal
  scenario includes VSC: three scenarios then, two otherwise. The optimal scenario
  includes VSC (GAP) when the risk assessment recommends it or the deal requests it; the
  VSC-stripped scenario keeps GAP exactly if the optimal one has it and has no VSC; the
  all-stripped scenario has neither.
\<close>

theorem buildSmartScenarios_shape:
  "map bs_optimizationLevel (buildSmartScenarios deal ra lender) =
     (if bs_hasVsc (hd (buildSmartScenarios deal ra lender))
      then [optimal, vsc_stripped, all_stripped] else [optimal, all_stripped])
   \<and> bs_hasVsc (hd (buildSmartScenarios deal ra lender))
       = (recommendVsc ra \<or> vsc (backendProducts deal))
   \<and> bs_hasGap (hd (buildSmartScenarios deal ra lender))
       = (recommendGap ra \<or> gap (backendProducts deal))
   \<and> (bs_hasVsc (hd (buildSmartScenarios deal ra lender)) \<longrightarrow>
        bs_hasGap (buildSmartScenarios deal ra lender ! 1)
          = bs_hasGap (hd (buildSmartScenarios deal ra lender))
        \<and> \<not> bs_hasVsc (buildSmartScenarios deal ra lender ! 1))
   \<and> \<not> bs_hasGap (last (buildSmartScenarios deal ra lender))
   \<and> \<not> bs_hasVsc (last (buildSmartScenarios deal ra lender))"
  by (simp add: buildSmartScenarios_def Let_def)

theorem buildSmartScenarios_shape_witness:
  "map bs_optimizationLevel (buildSmartScenarios sampleDeal (assessRisk 2025 sampleDeal) lender_westlake)
     = [optimal, vsc_stripped, all_stripped]
   \<and> map bs_hasGap (buildSmartScenarios sampleDeal (assessRisk 2025 sampleDeal) lender_westlake)
     = [True, True, False]
   \<and> map bs_optimizationLevel (buildSmartScenarios newerDeal (assessRisk 2025 newerDeal) lender_westlake)
     = [optimal, all_stripped]"
proof -
  have a: "recommendVsc (assessRisk 2025 sampleDeal)" "recommendGap (assessRisk 2025 sampleDeal)"
    by code_simp+
  have b: "\<not> recommendVsc (assessRisk 2025 newerDeal)" "\<not> vsc (backendProducts newerDeal)"
    by code_simp+
  have c: "map bs_hasGap (buildSmartScenarios sampleDeal (assessRisk 2025 sampleDeal) lender_westlake)
     = [True, True, False]"
    by code_simp
  show ?thesis
    using buildSmartScenarios_shape [of sampleDeal "assessRisk 2025 sampleDeal" lender_westlake]
      buildSmartScenarios_shape [of newerDeal "assessRisk 2025 newerDeal" lender_westlake] a b c
    by simp
qed


section \<open>Selection and ranking\<close>

lemma mset_insertSorted: "mset (insertSorted cmp x xs) = add_mset x (mset xs)"
  by (induction xs) simp_all

lemma mset_arraySort: "mset (arraySort cmp xs) = mset xs"
  unfolding arraySort_def by (induction xs) (simp_all add: mset_insertSorted)

lemma arraySort_Nil_iff: "arraySort cmp xs = [] \<longleftrightarrow> xs = []"
  using mset_arraySort [of cmp xs] by (metis mset_zero_iff)

lemma compareCandidates_le:
  "compareCandidates deal a b \<le> 0 \<longleftrightarrow> rankedBefore deal a b"
  by (auto simp add: compareCandidates_def rankedBefore_def Let_def)

lemma rankKey_le: "rankKey deal a \<le> rankKey deal b \<longleftrightarrow> rankedBefore deal a b"
  by (auto simp add: rankKey_def rankedBefore_def less_eq_prod_def)

text \<open>The model of \<open>sort\<close> with this comparator is the library's stable sort by the key.\<close>

lemma insertSorted_insort_key:
  "insertSorted (compareCandidates deal) x xs = insort_key (rankKey deal) x xs"
  by (induction xs) (simp_all add: compareCandidates_le rankKey_le)

lemma arraySort_sort_key:
  "arraySort (compareCandidates deal) xs = sort_key (rankKey deal) xs"
  unfolding arraySort_def by (induction xs) (simp_all add: insertSorted_insort_key)

lemma sorted_arraySort:
  "sorted_wrt (rankedBefore deal) (arraySort (compareCandidates deal) xs)"
  using sorted_sort_key [of "rankKey deal" xs]
  by (simp add: arraySort_sort_key sorted_map rankKey_le)


text \<open>What \<open>runRehash\<close> returns once the candidates are there.\<close>

lemma runRehash_of_candidates:
  assumes "generateCandidates loc y deal lenders = Inr cands"
  shows "runRehash loc y deal lenders =
           Inr \<lparr>bestDeal = (case arraySort (compareCandidates deal) (spec_pool deal cands) of
                              [] \<Rightarrow> None | c # cs \<Rightarrow> Some c),
                allCandidates = arraySort (compareCandidates deal) (spec_pool deal cands),
                rr_riskAssessment = assessRisk y deal\<rparr>"
proof -
  have "(if 0 < length xs then Some (xs ! 0) else None) = (case xs of [] \<Rightarrow> None | c # cs \<Rightarrow> Some c)"
    for xs :: "DealCandidate list"
    by (cases xs) simp_all
  then show ?thesis
    by (simp add: runRehash_def assms Let_def spec_pool_def)
qed

subsection \<open>No run of well-formed lenders meets an error\<close>

lemma collect_total:
  assumes "\<And>x. x \<in> set xs \<Longrightarrow> \<exists>ys. f x = Inr ys"
  shows "\<exists>zs. collect f xs = Inr zs"
  using assms
proof (induction xs)
  case Nil
  show ?case by simp
next
  case (Cons x xs)
  from Cons.prems obtain ys where "f x = Inr ys" by auto
  moreover from Cons obtain zs where "collect f xs = Inr zs" by auto
  ultimately show ?case by simp
qed

lemma calculateMonthlyPayment_total:
  assumes "0 < n" and "0 \<le> a"
  shows "\<exists>p. calculateMonthlyPayment P a n = Some p"
proof (cases "a = 0")
  case True
  with assms show ?thesis by (simp add: calculateMonthlyPayment_def)
next
  case False
  with assms have r: "0 < a / 100 / 12" by simp
  then have "1 < 1 + a / 100 / 12" by simp
  then have "1 < (1 + a / 100 / 12) ^ nat n"
    using assms(1) by (intro one_less_power) simp_all
  then have "power_int (1 + a / 100 / 12) (- n) \<noteq> 1"
    using assms(1) by (simp add: power_int_def power_inverse)
  with r show ?thesis
    by (simp add: calculateMonthlyPayment_def Let_def)
qed

lemma estimateNetCheckAndProfit_total:
  "\<exists>nc. estimateNetCheckAndProfit y deal lender row af bt am = Inr nc"
  by (simp add: estimateNetCheckAndProfit_def LENDER_ADVANCE_CONFIGS_def Let_def)

lemma evaluateScenario_total:
  assumes "0 < t" and "0 \<le> a"
  shows "\<exists>cs. evaluateScenario loc y deal ra lender el row a t down sc = Inr cs"
proof -
  let ?af = "computeAmountFinanced (deal\<lparr>downPayment := down\<rparr>) (scenarioValue sc)"
  obtain p where p: "calculateMonthlyPayment ?af a t = Some p"
    using calculateMonthlyPayment_total [OF assms] by blast
  obtain nc where nc: "estimateNetCheckAndProfit y (deal\<lparr>downPayment := down\<rparr>) lender row ?af
      (scenarioValue sc) (advanceMultiplier el) = Inr nc"
    using estimateNetCheckAndProfit_total by blast
  show ?thesis
    unfolding evaluateScenario_def Let_def by (simp add: p nc)
qed

lemma pickApr_nonneg:
  assumes "list_all (\<lambda>row. 0 \<le> minApr row + maxApr row) (pricingGrid l)"
    and "pickApr l tier = Some a"
  shows "0 \<le> a"
proof -
  from assms(2) obtain row where f: "find (\<lambda>p. creditTier p = tier) (pricingGrid l) = Some row"
    and a: "a = (minApr row + maxApr row) / 2"
    by (auto simp add: pickApr_def split: option.splits)
  from f have "row \<in> set (pricingGrid l)"
    by (auto simp add: find_Some_iff)
  with assms(1) have "0 \<le> minApr row + maxApr row"
    by (simp add: list_all_iff)
  with a show ?thesis by simp
qed

lemma lenderCandidates_total:
  assumes "list_all (\<lambda>t. 0 < t) (allowedTerms l)"
    and "list_all (\<lambda>row. 0 \<le> minApr row + maxApr row) (pricingGrid l)"
  shows "\<exists>cs. lenderCandidates loc y deal ra l = Inr cs"
proof -
  have inner: "\<exists>cs. collect (\<lambda>t. collect (\<lambda>down. collect (\<lambda>sc.
                 evaluateScenario loc y deal ra l el row a t down sc) scs) downs) (allowedTerms l) = Inr cs"
    if "0 \<le> a" for el row a scs downs
  proof (rule collect_total)
    fix t assume "t \<in> set (allowedTerms l)"
    with assms(1) have "0 < t" by (simp add: list_all_iff)
    show "\<exists>ys. collect (\<lambda>down. collect (\<lambda>sc.
                 evaluateScenario loc y deal ra l el row a t down sc) scs) downs = Inr ys"
      by (intro collect_total evaluateScenario_total \<open>0 < t\<close> that)
  qed
  show ?thesis
    unfolding lenderCandidates_def Let_def
    by (auto split: option.splits simp del: collect.simps
          intro!: inner pickApr_nonneg [OF assms(2)])
qed

lemma generateCandidates_total:
  assumes "lendersWellFormed lenders"
  shows "\<exists>cs. generateCandidates loc y deal lenders = Inr cs"
  unfolding generateCandidates_def Let_def
proof (rule collect_total)
  fix l assume "l \<in> set (filter active lenders)"
  with assms show "\<exists>ys. lenderCandidates loc y deal (assessRisk y deal) l = Inr ys"
    by (intro lenderCandidates_total) (auto simp add: lendersWellFormed_def list_all_iff)
qed

text \<open>
  Claim C3. \<open>runRehash\<close> returns as \<open>allCandidates\<close> the candidates whose payment lies in
  the window of the tolerance around the target payment if there is one, else all
  candidates, sorted by net check to the dealer descending and, at equal net checks, by
  the distance of the payment from the target ascending; \<open>bestDeal\<close> is the first of that
  list, and null exactly when there is no candidate. A run returns whenever every allowed
  term is positive and no APR midpoint is negative, as for the shipped lenders.
\<close>

theorem runRehash_ranking:
  "(lendersWellFormed lenders \<longrightarrow> (\<exists>cands. generateCandidates loc y deal lenders = Inr cands))
   \<and> (\<forall>cands. generateCandidates loc y deal lenders = Inr cands \<longrightarrow>
        (\<exists>res. runRehash loc y deal lenders = Inr res
           \<and> allCandidates res = sort_key (rankKey deal) (spec_pool deal cands)
           \<and> mset (allCandidates res) = mset (spec_pool deal cands)
           \<and> sorted_wrt (rankedBefore deal) (allCandidates res)
           \<and> bestDeal res = (case allCandidates res of [] \<Rightarrow> None | c # cs \<Rightarrow> Some c)
           \<and> (bestDeal res = None \<longleftrightarrow> cands = [])))"
proof (intro conjI impI allI)
  assume "lendersWellFormed lenders"
  then show "\<exists>cands. generateCandidates loc y deal lenders = Inr cands"
    by (rule generateCandidates_total)
next
  fix cands
  assume g: "generateCandidates loc y deal lenders = Inr cands"
  define res where "res =
     \<lparr>bestDeal = (case arraySort (compareCandidates deal) (spec_pool deal cands) of
                    [] \<Rightarrow> None | c # cs \<Rightarrow> Some c),
      allCandidates = arraySort (compareCandidates deal) (spec_pool deal cands),
      rr_riskAssessment = assessRisk y deal\<rparr>"
  have run: "runRehash loc y deal lenders = Inr res"
    unfolding res_def using g by (rule runRehash_of_candidates)
  have key: "allCandidates res = sort_key (rankKey deal) (spec_pool deal cands)"
    by (simp add: res_def arraySort_sort_key)
  have perm: "mset (allCandidates res) = mset (spec_pool deal cands)"
    by (simp add: res_def mset_arraySort)
  have srt: "sorted_wrt (rankedBefore deal) (allCandidates res)"
    by (simp add: res_def sorted_arraySort)
  have best: "bestDeal res = (case allCandidates res of [] \<Rightarrow> None | c # cs \<Rightarrow> Some c)"
    by (simp add: res_def)
  have "spec_pool deal cands = [] \<longleftrightarrow> cands = []"
    by (auto simp add: spec_pool_def Let_def)
  then have none: "bestDeal res = None \<longleftrightarrow> cands = []"
    using arraySort_Nil_iff [of "compareCandidates deal" "spec_pool deal cands"]
    by (cases "arraySort (compareCandidates deal) (spec_pool deal cands)")
       (simp_all add: res_def)
  show "\<exists>res. runRehash loc y deal lenders = Inr res
           \<and> allCandidates res = sort_key (rankKey deal) (spec_pool deal cands)
           \<and> mset (allCandidates res) = mset (spec_pool deal cands)
           \<and> sorted_wrt (rankedBefore deal) (allCandidates res)
           \<and> bestDeal res = (case allCandidates res of [] \<Rightarrow> None | c # cs \<Rightarrow> Some c)
           \<and> (bestDeal res = None \<longleftrightarrow> cands = [])"
    by (intro exI [of _ res] conjI run key perm srt best none)
qed

theorem runRehash_ranking_witness:
  "lendersWellFormed LENDERS
   \<and> (\<exists>cands res.
        generateCandidates toLocaleString 2025 (sampleDeal\<lparr>targetPayment := 300, paymentTolerance := 10\<rparr>)
            [lender_plain] = Inr cands
      \<and> runRehash toLocaleString 2025 (sampleDeal\<lparr>targetPayment := 300, paymentTolerance := 10\<rparr>)
            [lender_plain] = Inr res
      \<and> length cands = 9
      \<and> map (\<lambda>c. (netCheckToDealer c, payment c)) (allCandidates res)
          = [(14839479 / 1000, 121357 / 400), (14055479 / 1000, 348071 / 1200)]
      \<and> sorted_wrt (rankedBefore (sampleDeal\<lparr>targetPayment := 300, paymentTolerance := 10\<rparr>))
          (allCandidates res)
      \<and> map_option payment (bestDeal res) = Some (121357 / 400))"
proof -
  let ?d = "sampleDeal\<lparr>targetPayment := 300, paymentTolerance := 10\<rparr>"
  have w: "lendersWellFormed [lender_plain]" and ws: "lendersWellFormed LENDERS"
    by code_simp+
  from runRehash_ranking [of "[lender_plain]" toLocaleString 2025 ?d] w
  obtain cands where g: "generateCandidates toLocaleString 2025 ?d [lender_plain] = Inr cands"
    by blast
  with runRehash_ranking [of "[lender_plain]" toLocaleString 2025 ?d]
  obtain res where run: "runRehash toLocaleString 2025 ?d [lender_plain] = Inr res"
    and srt: "sorted_wrt (rankedBefore ?d) (allCandidates res)"
    and best: "bestDeal res = (case allCandidates res of [] \<Rightarrow> None | c # cs \<Rightarrow> Some c)"
    by blast
  have n: "(case generateCandidates toLocaleString 2025 ?d [lender_plain] of
              Inl e \<Rightarrow> None | Inr cs \<Rightarrow> Some (length cs)) = Some 9"
    by code_simp
  have v: "(case runRehash toLocaleString 2025 ?d [lender_plain] of
              Inl e \<Rightarrow> []
            | Inr r \<Rightarrow> map (\<lambda>c. (netCheckToDealer c, payment c)) (allCandidates r))
           = [(14839479 / 1000, 121357 / 400), (14055479 / 1000, 348071 / 1200)]"
    by code_simp
  from v run have v': "map (\<lambda>c. (netCheckToDealer c, payment c)) (allCandidates res)
           = [(14839479 / 1000, 121357 / 400), (14055479 / 1000, 348071 / 1200)]"
    by simp
  then have "map_option payment (bestDeal res) = Some (121357 / 400)"
    using best by (cases "allCandidates res") simp_all
  with g run n v' srt ws show ?thesis
    by auto
qed

section \<open>Repeated invocations: the clock and the locale\<close>




section \<open>The compliance filter\<close>

lemma filterCompliantDeals_fold:
  "foldl (\<lambda>acc deal.
              if dealViolations rules deal = []
              then acc\<lparr>validDeals := validDeals acc @ [deal]\<rparr>
              else acc\<lparr>rejectedDeals := rejectedDeals acc
                         @ [\<lparr>rd_deal = deal, violations = dealViolations rules deal\<rparr>]\<rparr>)
          acc deals
   = \<lparr>validDeals = validDeals acc @ filter (\<lambda>c. dealViolations rules c = []) deals,
      rejectedDeals = rejectedDeals acc
        @ map (\<lambda>c. \<lparr>rd_deal = c, violations = dealViolations rules c\<rparr>)
            (filter (\<lambda>c. dealViolations rules c \<noteq> []) deals)\<rparr>"
  by (induction deals arbitrary: acc) simp_all

lemma filterCompliantDeals_eq:
  "filterCompliantDeals deals rules
   = \<lparr>validDeals = filter (\<lambda>c. dealViolations rules c = []) deals,
      rejectedDeals = map (\<lambda>c. \<lparr>rd_deal = c, violations = dealViolations rules c\<rparr>)
                        (filter (\<lambda>c. dealViolations rules c \<noteq> []) deals)\<rparr>"
  unfolding filterCompliantDeals_def Let_def by (simp add: filterCompliantDeals_fold)

lemma ltv_over_cap_violation:
  "ltv c > ltvCap rules \<Longrightarrow> ltvViolation c rules \<in> set (dealViolations rules c)"
  by (simp add: dealViolations_def)

lemma determineBankRules_fields:
  "ltvCap (determineBankRules m l t) = spec_ltvCap t"
  "mandatoryVsc (determineBankRules m l t) = (m > 100000)"
  "mandatoryGap (determineBankRules m l t) = (l > 110)"
  by (simp_all add: determineBankRules_def spec_ltvCap_def Let_def)

text \<open>
  Claim C6. The rules that \<open>determineBankRules\<close> produces make VSC mandatory exactly above
  100,000 miles and GAP mandatory exactly above an LTV of 110, and take the LTV cap from
  the table per credit tier. With such rules \<open>filterCompliantDeals\<close> puts every candidate
  whose LTV exceeds the cap among the rejected deals, with the LTV violation among its
  reasons, whatever the candidate's \<open>withinGuidelines\<close> flag says; and every candidate is
  in exactly one of the valid and the rejected deals.
\<close>

theorem filterCompliantDeals_partition:
  "ltvCap (determineBankRules m l t) = spec_ltvCap t
   \<and> mandatoryVsc (determineBankRules m l t) = (m > 100000)
   \<and> mandatoryGap (determineBankRules m l t) = (l > 110)
   \<and> (\<forall>c \<in> set deals. ltv c > ltvCap (determineBankRules m l t) \<longrightarrow>
        c \<notin> set (validDeals (filterCompliantDeals deals (determineBankRules m l t))) \<and>
        (\<exists>r \<in> set (rejectedDeals (filterCompliantDeals deals (determineBankRules m l t))).
            rd_deal r = c \<and> ltvViolation c (determineBankRules m l t) \<in> set (violations r)))
   \<and> (\<forall>c \<in> set deals.
        (c \<in> set (validDeals (filterCompliantDeals deals (determineBankRules m l t))))
        \<noteq> (c \<in> rd_deal ` set (rejectedDeals (filterCompliantDeals deals (determineBankRules m l t)))))
   \<and> mset (validDeals (filterCompliantDeals deals (determineBankRules m l t)))
       + mset (map rd_deal (rejectedDeals (filterCompliantDeals deals (determineBankRules m l t))))
     = mset deals"
proof -
  define rules where "rules = determineBankRules m l t"
  have over: "c \<notin> set (validDeals (filterCompliantDeals deals rules)) \<and>
        (\<exists>r \<in> set (rejectedDeals (filterCompliantDeals deals rules)).
            rd_deal r = c \<and> ltvViolation c rules \<in> set (violations r))"
    if "c \<in> set deals" and "ltv c > ltvCap rules" for c
  proof -
    from that(2) have v: "ltvViolation c rules \<in> set (dealViolations rules c)"
      by (rule ltv_over_cap_violation)
    then have ne: "dealViolations rules c \<noteq> []" by auto
    let ?r = "\<lparr>rd_deal = c, violations = dealViolations rules c\<rparr>"
    from that(1) ne have "?r \<in> set (rejectedDeals (filterCompliantDeals deals rules))"
      by (simp add: filterCompliantDeals_eq)
    with v ne show ?thesis
      by (auto simp add: filterCompliantDeals_eq intro!: bexI [of _ ?r])
  qed
  have one: "(c \<in> set (validDeals (filterCompliantDeals deals rules)))
        \<noteq> (c \<in> rd_deal ` set (rejectedDeals (filterCompliantDeals deals rules)))"
    if "c \<in> set deals" for c
    using that by (auto simp add: filterCompliantDeals_eq image_iff)
  have "map rd_deal (rejectedDeals (filterCompliantDeals deals rules))
        = filter (\<lambda>c. dealViolations rules c \<noteq> []) deals"
    by (simp add: filterCompliantDeals_eq comp_def)
  then have all: "mset (validDeals (filterCompliantDeals deals rules))
       + mset (map rd_deal (rejectedDeals (filterCompliantDeals deals rules))) = mset deals"
    by (simp add: filterCompliantDeals_eq)
  show ?thesis
    using over one all determineBankRules_fields [of m l t]
    unfolding rules_def by blast
qed

theorem filterCompliantDeals_partition_witness:
  "filterCompliantDeals [sampleCandidate, sampleCandidate\<lparr>ltv := 100\<rparr>]
       (determineBankRules 45000 100 ''subprime'')
   = \<lparr>validDeals = [sampleCandidate\<lparr>ltv := 100\<rparr>],
      rejectedDeals = [\<lparr>rd_deal = sampleCandidate,
                        violations = [''LTV 125% exceeds cap of 120%'']\<rparr>]\<rparr>
   \<and> withinGuidelines sampleCandidate
   \<and> (\<exists>r \<in> set (rejectedDeals (filterCompliantDeals [sampleCandidate, sampleCandidate\<lparr>ltv := 100\<rparr>]
                  (determineBankRules 45000 100 ''subprime''))).
         rd_deal r = sampleCandidate
         \<and> ltvViolation sampleCandidate (determineBankRules 45000 100 ''subprime'') \<in> set (violations r))"
proof -
  have a: "filterCompliantDeals [sampleCandidate, sampleCandidate\<lparr>ltv := 100\<rparr>]
       (determineBankRules 45000 100 ''subprime'')
   = \<lparr>validDeals = [sampleCandidate\<lparr>ltv := 100\<rparr>],
      rejectedDeals = [\<lparr>rd_deal = sampleCandidate,
                        violations = [''LTV 125% exceeds cap of 120%'']\<rparr>]\<rparr>"
    by code_simp
  have b: "withinGuidelines sampleCandidate"
    by (simp add: sampleCandidate_def)
  have c: "ltv sampleCandidate > ltvCap (determineBankRules 45000 100 ''subprime'')"
    by code_simp
  show ?thesis
    using filterCompliantDeals_partition
      [of 45000 100 "''subprime''" "[sampleCandidate, sampleCandidate\<lparr>ltv := 100\<rparr>]"] a b c
    by (simp del: One_nat_def)
qed

end
